theory Spec2Isabelle
  imports Complex_Main "HOL-Library.Multiset"
begin

section \<open>Identity allocators (utils.py, class IdCounter)\<close>

datatype error = ValueError | KeyError

text \<open>The sentinel returned by the property \<open>NO_ID\<close>.\<close>

definition NO_ID :: int where
  "NO_ID = - 1"

text \<open>An \<open>IdCounter\<close> object: the configured start and the attribute \<open>_id\<close>
  (written \<open>counter_id\<close>, since a name cannot start with an underscore).\<close>

record IdCounter =
  start_id :: int
  counter_id :: int

text \<open>\<open>IdCounter.__init__\<close>: raises ValueError when \<open>start_id <= NO_ID\<close>, otherwise
  stores the start and calls \<open>reset\<close>.\<close>

definition IdCounter_reset :: "IdCounter \<Rightarrow> IdCounter" where
  "IdCounter_reset c = c\<lparr>counter_id := start_id c\<rparr>"

definition IdCounter_init :: "int \<Rightarrow> error + IdCounter" where
  "IdCounter_init start =
     (if start \<le> NO_ID then Inl ValueError
      else Inr (IdCounter_reset \<lparr>start_id = start, counter_id = start\<rparr>))"

text \<open>\<open>new_id\<close>: returns the current value and increments the counter.\<close>

definition new_id :: "IdCounter \<Rightarrow> int \<times> IdCounter" where
  "new_id c = (counter_id c, c\<lparr>counter_id := counter_id c + 1\<rparr>)"


section \<open>Geometric overlap (utils.py, box_iou_batch)\<close>

text \<open>A box is a row \<open>(x_min, y_min, x_max, y_max)\<close>; numpy's floats are modelled as
  exact reals, and the values a float division can produce besides a number are
  written out.\<close>

type_synonym box = "real \<times> real \<times> real \<times> real"

datatype npfloat = Finite real | NaN | PosInf | NegInf

text \<open>The largest finite double, which \<open>nan_to_num\<close> puts in place of an infinity.\<close>

definition float_max :: real where
  "float_max = (2 - 1 / 2 ^ 52) * 2 ^ 1023"

text \<open>numpy's true division of floats: a zero divisor gives NaN for \<open>0 / 0\<close> and a
  signed infinity otherwise (a warning, never an exception).\<close>

definition np_divide :: "real \<Rightarrow> real \<Rightarrow> npfloat" where
  "np_divide a b =
     (if b \<noteq> 0 then Finite (a / b)
      else if a = 0 then NaN
      else if a > 0 then PosInf else NegInf)"

definition nan_to_num :: "npfloat \<Rightarrow> real" where
  "nan_to_num v =
     (case v of Finite x \<Rightarrow> x | NaN \<Rightarrow> 0 | PosInf \<Rightarrow> float_max | NegInf \<Rightarrow> - float_max)"

text \<open>The inner function \<open>box_area\<close>.\<close>

definition box_area :: "box \<Rightarrow> real" where
  "box_area b = (case b of (x1, y1, x2, y2) \<Rightarrow> (x2 - x1) * (y2 - y1))"

text \<open>\<open>area_inter\<close> for one pair: the product over the two axes of
  \<open>clip(bottom_right - top_left, a_min=0)\<close>.\<close>

definition area_inter :: "box \<Rightarrow> box \<Rightarrow> real" where
  "area_inter a b =
     (case a of (ax1, ay1, ax2, ay2) \<Rightarrow>
      case b of (bx1, by1, bx2, by2) \<Rightarrow>
        max 0 (min ax2 bx2 - max ax1 bx1) * max 0 (min ay2 by2 - max ay1 by1))"

text \<open>The divisor of one entry, \<open>area_true + area_detection - area_inter\<close>.\<close>

definition iou_denominator :: "box \<Rightarrow> box \<Rightarrow> real" where
  "iou_denominator a b = box_area a + box_area b - area_inter a b"

text \<open>One entry of the matrix before and after \<open>nan_to_num\<close>.\<close>

definition iou_raw :: "box \<Rightarrow> box \<Rightarrow> npfloat" where
  "iou_raw a b = np_divide (area_inter a b) (iou_denominator a b)"

definition box_iou :: "box \<Rightarrow> box \<Rightarrow> real" where
  "box_iou a b = nan_to_num (iou_raw a b)"

text \<open>\<open>box_iou_batch\<close>: one row per box of \<open>boxes_true\<close>, one column per box of
  \<open>boxes_detection\<close>.\<close>

definition box_iou_batch :: "box list \<Rightarrow> box list \<Rightarrow> real list list" where
  "box_iou_batch boxes_true boxes_detection =
     map (\<lambda>a. map (\<lambda>b. box_iou a b) boxes_detection) boxes_true"

section \<open>Tracks (single_object_track.py and kalman_filter.py)\<close>

text \<open>The sources of \<open>STrack\<close>, \<open>TrackState\<close>, \<open>KalmanFilter\<close> and \<open>matching\<close> are not
  part of the two source files \<open>core.py\<close> and \<open>utils.py\<close>; \<open>core.py\<close> only calls them. The
  numerical parts (the motion filter and the assignment solver) are parameters of the
  model, so every theorem holds for each choice of them; the lifecycle operations are
  written down from the specification.\<close>

datatype TrackState = New | Tracked | Lost | Removed

text \<open>An \<open>STrack\<close> object. \<open>tlwh_raw\<close> is the box given to the constructor, \<open>mean\<close> the
  state of the motion filter (\<open>None\<close> until \<open>activate\<close>), \<open>track_frame_id\<close> the attribute
  \<open>frame_id\<close>, \<open>required_frames\<close> the constructor's \<open>minimum_consecutive_frames\<close>.\<close>

record 'k STrack =
  tlwh_raw :: box
  score :: real
  mean :: "'k option"
  state :: TrackState
  is_activated :: bool
  track_frame_id :: int
  start_frame :: int
  tracklet_len :: int
  required_frames :: int
  internal_track_id :: int
  external_track_id :: int

text \<open>The parameters: the motion filter on an abstract state \<open>'k\<close> (\<open>kf_initiate\<close> from
  a measured box, \<open>kf_predict\<close> given the state of the track, \<open>kf_update\<close> with a measured
  box, \<open>kf_tlwh\<close> reading the box off the filter state) and the solver that
  \<open>linear_assignment\<close> runs on a cost matrix and a threshold.\<close>

record 'k deps =
  kf_initiate :: "box \<Rightarrow> 'k"
  kf_predict :: "TrackState \<Rightarrow> 'k \<Rightarrow> 'k"
  kf_update :: "'k \<Rightarrow> box \<Rightarrow> 'k"
  kf_tlwh :: "'k \<Rightarrow> box"
  lap_solver :: "real list list \<Rightarrow> real \<Rightarrow> (nat \<times> nat) list"

text \<open>Modelled from the spec: the box encodings of the glossary, \<open>tlbr\<close> (two corners)
  and \<open>tlwh\<close> (corner, width, height); \<open>STrack.tlbr_to_tlwh\<close> and the properties \<open>tlwh\<close>
  and \<open>tlbr\<close> are missing from the sources.\<close>

definition tlbr_to_tlwh :: "box \<Rightarrow> box" where
  "tlbr_to_tlwh b = (case b of (x1, y1, x2, y2) \<Rightarrow> (x1, y1, x2 - x1, y2 - y1))"

definition tlwh_to_tlbr :: "box \<Rightarrow> box" where
  "tlwh_to_tlbr b = (case b of (x, y, w, h) \<Rightarrow> (x, y, x + w, y + h))"

definition tlwh :: "'k deps \<Rightarrow> 'k STrack \<Rightarrow> box" where
  "tlwh env t = (case mean t of None \<Rightarrow> tlwh_raw t | Some m \<Rightarrow> kf_tlwh env m)"

definition tlbr :: "'k deps \<Rightarrow> 'k STrack \<Rightarrow> box" where
  "tlbr env t = tlwh_to_tlbr (tlwh env t)"

text \<open>Modelled from the spec: the constructor of \<open>STrack\<close>, missing from the sources. A
  track is born in state New, not activated, with no identity (the sentinel) and no
  filter state.\<close>

definition new_STrack :: "box \<Rightarrow> real \<Rightarrow> int \<Rightarrow> 'k STrack" where
  "new_STrack b sc mcf =
     \<lparr>tlwh_raw = b, score = sc, mean = None, state = New, is_activated = False,
      track_frame_id = 0, start_frame = 0, tracklet_len = 0, required_frames = mcf,
      internal_track_id = NO_ID, external_track_id = NO_ID\<rparr>"

text \<open>Modelled from the spec: \<open>STrack.activate\<close>, missing from the sources (section 4.2:
  New to Tracked; allocates the internal id if not already allocated; allocates the
  external id only if one consecutive frame is required, and sets \<open>is_activated\<close> in
  that case; initialises the motion filter from the detection's geometry).\<close>

definition STrack_activate ::
  "'k deps \<Rightarrow> 'k STrack \<Rightarrow> int \<Rightarrow> IdCounter \<Rightarrow> IdCounter \<Rightarrow> 'k STrack \<times> IdCounter \<times> IdCounter" where
  "STrack_activate env t fid ic ec =
     (let (iid, ic') = (if internal_track_id t = NO_ID then new_id ic
                        else (internal_track_id t, ic));
          now = (required_frames t = 1);
          (eid, ec') = (if now then new_id ec else (external_track_id t, ec))
      in (t\<lparr>mean := Some (kf_initiate env (tlwh_raw t)), state := Tracked,
             is_activated := (is_activated t \<or> now), track_frame_id := fid,
             start_frame := fid, tracklet_len := 0,
             internal_track_id := iid, external_track_id := eid\<rparr>, ic', ec'))"

text \<open>Modelled from the spec: \<open>STrack.update\<close>, missing from the sources (section 4.2:
  Tracked to Tracked; corrects the filter with the new geometry, refreshes score and
  frame, increments the streak and sets \<open>is_activated\<close> once the streak reaches the
  required number; section 3: the external id is allocated once, when the track first
  becomes visible).\<close>

definition STrack_update ::
  "'k deps \<Rightarrow> 'k STrack \<Rightarrow> 'k STrack \<Rightarrow> int \<Rightarrow> IdCounter \<Rightarrow> 'k STrack \<times> IdCounter" where
  "STrack_update env t det fid ec =
     (let len = tracklet_len t + 1;
          reached = (len \<ge> required_frames t);
          (eid, ec') = (if reached \<and> external_track_id t = NO_ID then new_id ec
                        else (external_track_id t, ec))
      in (t\<lparr>mean := map_option (\<lambda>m. kf_update env m (tlwh env det)) (mean t),
             score := score det, state := Tracked,
             is_activated := (is_activated t \<or> reached), track_frame_id := fid,
             tracklet_len := len, external_track_id := eid\<rparr>, ec'))"

text \<open>Modelled from the spec: \<open>STrack.re_activate\<close>, missing from the sources (section
  4.2: Lost to Tracked; corrects the filter, resets score and geometry, marks
  \<open>is_activated\<close>; the external id is kept).\<close>

definition STrack_re_activate :: "'k deps \<Rightarrow> 'k STrack \<Rightarrow> 'k STrack \<Rightarrow> int \<Rightarrow> 'k STrack" where
  "STrack_re_activate env t det fid =
     t\<lparr>mean := map_option (\<lambda>m. kf_update env m (tlwh env det)) (mean t),
       score := score det, state := Tracked, is_activated := True,
       track_frame_id := fid, tracklet_len := 0\<rparr>"

text \<open>The store of \<open>STrack\<close> objects is a list: a track is referred to by its
  address, an index of the store, so that a change made through one list of tracks is
  seen through every other list holding the same track.\<close>

text \<open>Modelled from the spec: \<open>STrack.multi_predict\<close>, missing from the sources: the
  filter of every track of the pool advances by one frame.\<close>

definition multi_predict :: "'k deps \<Rightarrow> nat list \<Rightarrow> 'k STrack list \<Rightarrow> 'k STrack list" where
  "multi_predict env pool h =
     foldl (\<lambda>h a. h[a := (h ! a)\<lparr>mean := map_option (kf_predict env (state (h ! a))) (mean (h ! a))\<rparr>])
       h pool"

section \<open>Association (matching.py)\<close>

text \<open>Modelled from the spec: \<open>matching.iou_distance\<close>, missing from the sources
  (section 4.4: the cost matrix \<open>1 - IoU\<close> of the boxes in tlbr form).\<close>

definition iou_distance :: "box list \<Rightarrow> box list \<Rightarrow> real list list" where
  "iou_distance atlbrs btlbrs = map (map (\<lambda>v. 1 - v)) (box_iou_batch atlbrs btlbrs)"

text \<open>Modelled from the spec: \<open>matching.fuse_score\<close>, missing from the sources (section
  4.4: in column \<open>j\<close> the similarity \<open>1 - cost\<close> is multiplied by the score of detection
  \<open>j\<close>, and the fused cost is one minus that).\<close>

definition fuse_score :: "real list list \<Rightarrow> real list \<Rightarrow> real list list" where
  "fuse_score cost det_scores =
     map (\<lambda>row. map (\<lambda>(c, sc). 1 - (1 - c) * sc) (zip row det_scores)) cost"

text \<open>Modelled from the spec: \<open>matching.linear_assignment\<close>, missing from the sources
  (section 4.4). The matrix has \<open>n\<close> rows and \<open>m\<close> columns. An empty matrix yields no
  match and every index unmatched. Otherwise the pairs are those of the solver that
  are indices of the matrix and cost less than the threshold; the unmatched rows and
  columns are the indices in no accepted pair.\<close>

definition linear_assignment ::
  "'k deps \<Rightarrow> nat \<Rightarrow> nat \<Rightarrow> real list list \<Rightarrow> real \<Rightarrow> (nat \<times> nat) list \<times> nat list \<times> nat list" where
  "linear_assignment env n m cost thresh =
     (if n = 0 \<or> m = 0 then ([], [0..<n], [0..<m])
      else
        (let ms = filter (\<lambda>(i, j). i < n \<and> j < m \<and> cost ! i ! j < thresh)
                    (lap_solver env cost thresh)
         in (ms, filter (\<lambda>i. i \<notin> set (map fst ms)) [0..<n],
                 filter (\<lambda>j. j \<notin> set (map snd ms)) [0..<m])))"

section \<open>The tracker (core.py, class BYTETrack)\<close>

text \<open>The attributes of a \<open>BYTETrack\<close> object. The track lists hold addresses of the
  store \<open>heap\<close>; \<open>cls2tracked_tracks\<close>, a dict with the keys \<open>range(n_classes)\<close>, is the
  list of its values in key order.\<close>

record 'k BYTETrack =
  track_activation_threshold :: real
  minimum_matching_threshold :: real
  frame_id :: int
  det_thresh :: real
  max_time_lost :: int
  minimum_consecutive_frames :: int
  tracked_tracks :: "nat list"
  lost_tracks :: "nat list"
  removed_tracks :: "nat list"
  internal_id_counter :: IdCounter
  external_id_counter :: IdCounter
  n_classes :: int
  cls2tracked_tracks :: "nat list list"
  heap :: "'k STrack list"

subsection \<open>The arithmetic of the expiry window\<close>

text \<open>Line 49 reads an integer off a product of floats, so the rounding of each
  operation decides the result and is written out here: a Python float is a double, a
  number with a significand of 53 bits, and an operation returns the double nearest to
  the exact result, a tie going to the even significand. The range of the exponent is
  not bounded in this model; Python raises OverflowError where a double would exceed it
  (integers beyond about \<open>1.8e308\<close>).\<close>

text \<open>\<open>int.bit_length\<close>, on the integers that are not negative: the number of binary
  digits.\<close>

function bit_length :: "int \<Rightarrow> nat" where
  "bit_length n = (if n \<le> 0 then 0 else Suc (bit_length (n div 2)))"
  by pat_completeness auto

termination
  by (relation "measure nat") auto

declare bit_length.simps [simp del]

text \<open>The nearest integer, a tie going to the even one.\<close>

definition round_half_even :: "real \<Rightarrow> int" where
  "round_half_even x =
     (let f = \<lfloor>x\<rfloor>; d = x - of_int f
      in if d < 1 / 2 then f else if d > 1 / 2 then f + 1
         else if even f then f else f + 1)"

text \<open>The binary exponent of a number other than 0: the \<open>e\<close> with
  \<open>2^e \<le> |x| < 2^(e+1)\<close>.\<close>

definition float_exponent :: "real \<Rightarrow> int" where
  "float_exponent x =
     (if \<bar>x\<bar> \<ge> 1 then int (bit_length \<lfloor>\<bar>x\<bar>\<rfloor>) - 1
      else - int (bit_length (\<lceil>1 / \<bar>x\<bar>\<rceil> - 1)))"

text \<open>The double nearest to a real number: the number is rounded to a multiple of
  \<open>2^(e-52)\<close>, the spacing of the doubles of its exponent \<open>e\<close>.\<close>

definition double_round :: "real \<Rightarrow> real" where
  "double_round x =
     (if x = 0 then 0
      else (let q = 2 powi (float_exponent x - 52)
            in of_int (round_half_even (x / q)) * q))"

text \<open>The conversion of a Python int to a float, which \<open>/\<close> and \<open>*\<close> apply to an
  int operand, and the two operations on floats.\<close>

definition float_of_int :: "int \<Rightarrow> real" where
  "float_of_int n = double_round (of_int n)"

definition float_truediv :: "real \<Rightarrow> real \<Rightarrow> real" where
  "float_truediv a b = double_round (a / b)"

definition float_mul :: "real \<Rightarrow> real \<Rightarrow> real" where
  "float_mul a b = double_round (a * b)"

text \<open>Python's \<open>int()\<close> of a float truncates toward zero.\<close>

definition py_int :: "real \<Rightarrow> int" where
  "py_int x = (if x \<ge> 0 then \<lfloor>x\<rfloor> else \<lceil>x\<rceil>)"

subsection \<open>The constructor and reset\<close>

text \<open>\<open>BYTETrack.__init__\<close>. The two \<open>IdCounter\<close> constructors are the only calls that
  can raise; \<open>n_classes\<close> is stored and used as \<open>range(n_classes)\<close> without a check.
  \<open>max_time_lost\<close> is \<open>int(frame_rate / 30.0 * lost_track_buffer)\<close>, computed in
  doubles from the two integers.\<close>

definition BYTETrack_init ::
  "int \<Rightarrow> real \<Rightarrow> int \<Rightarrow> real \<Rightarrow> int \<Rightarrow> int \<Rightarrow> error + 'k BYTETrack" where
  "BYTETrack_init ncls tat lost_track_buffer mmt frame_rate mcf =
     (case IdCounter_init 0 of Inl e \<Rightarrow> Inl e | Inr ic \<Rightarrow>
      case IdCounter_init 1 of Inl e \<Rightarrow> Inl e | Inr ec \<Rightarrow>
        Inr \<lparr>track_activation_threshold = tat,
             minimum_matching_threshold = mmt,
             frame_id = 0,
             det_thresh = tat + 0.1,
             max_time_lost = py_int (float_mul (float_truediv (float_of_int frame_rate) 30)
                                       (float_of_int lost_track_buffer)),
             minimum_consecutive_frames = mcf,
             tracked_tracks = [], lost_tracks = [], removed_tracks = [],
             internal_id_counter = ic, external_id_counter = ec,
             n_classes = ncls,
             cls2tracked_tracks = replicate (nat ncls) [],
             heap = []\<rparr>)"

text \<open>\<open>BYTETrack.reset\<close>.\<close>

definition reset :: "'k BYTETrack \<Rightarrow> 'k BYTETrack" where
  "reset s = s\<lparr>frame_id := 0,
               internal_id_counter := IdCounter_reset (internal_id_counter s),
               external_id_counter := IdCounter_reset (external_id_counter s),
               tracked_tracks := [], lost_tracks := [], removed_tracks := []\<rparr>"

subsection \<open>The helpers joint_tracks, sub_tracks and remove_duplicate_tracks\<close>

text \<open>\<open>joint_tracks\<close>: the loop over \<open>track_list_a + track_list_b\<close> with the set of the
  internal ids seen so far.\<close>

fun joint_loop :: "'k STrack list \<Rightarrow> int set \<Rightarrow> nat list \<Rightarrow> nat list" where
  "joint_loop h seen [] = []"
| "joint_loop h seen (t # ts) =
     (if internal_track_id (h ! t) \<notin> seen
      then t # joint_loop h (insert (internal_track_id (h ! t)) seen) ts
      else joint_loop h seen ts)"

definition joint_tracks :: "'k STrack list \<Rightarrow> nat list \<Rightarrow> nat list \<Rightarrow> nat list" where
  "joint_tracks h track_list_a track_list_b = joint_loop h {} (track_list_a @ track_list_b)"

text \<open>Assignment to a key of a Python dict: an existing key keeps its position and
  takes the new value, a new key goes last.\<close>

fun dict_set :: "'a \<Rightarrow> 'b \<Rightarrow> ('a \<times> 'b) list \<Rightarrow> ('a \<times> 'b) list" where
  "dict_set k v [] = [(k, v)]"
| "dict_set k v (p # d) = (if fst p = k then (k, v) # d else p # dict_set k v d)"

text \<open>\<open>sub_tracks\<close>: the dict from internal id to track built from \<open>track_list_a\<close>,
  without the ids of \<open>track_list_b\<close>; its values in order.\<close>

definition sub_tracks :: "'k STrack list \<Rightarrow> nat list \<Rightarrow> nat list \<Rightarrow> nat list" where
  "sub_tracks h track_list_a track_list_b =
     (let tracks = foldl (\<lambda>d t. dict_set (internal_track_id (h ! t)) t d) [] track_list_a;
          track_ids_b = set (map (\<lambda>t. internal_track_id (h ! t)) track_list_b)
      in map snd (filter (\<lambda>p. fst p \<notin> track_ids_b) tracks))"

text \<open>\<open>remove_duplicate_tracks\<close>: the pairs at distance below 0.15 in row-major order
  (\<open>np.where\<close>), the two sets of duplicate indices, and the lists without them.\<close>

definition duplicate_step ::
  "'k STrack list \<Rightarrow> nat list \<Rightarrow> nat list \<Rightarrow> nat set \<times> nat set \<Rightarrow> nat \<times> nat \<Rightarrow> nat set \<times> nat set" where
  "duplicate_step h tracks_a tracks_b acc p =
     (let ta = h ! (tracks_a ! fst p); tb = h ! (tracks_b ! snd p);
          time_a = track_frame_id ta - start_frame ta;
          time_b = track_frame_id tb - start_frame tb
      in if time_a > time_b then (fst acc, insert (snd p) (snd acc))
         else (insert (fst p) (fst acc), snd acc))"

definition remove_duplicate_tracks ::
  "'k deps \<Rightarrow> 'k STrack list \<Rightarrow> nat list \<Rightarrow> nat list \<Rightarrow> nat list \<times> nat list" where
  "remove_duplicate_tracks env h tracks_a tracks_b =
     (let pairwise_distance = iou_distance (map (\<lambda>t. tlbr env (h ! t)) tracks_a)
                                (map (\<lambda>t. tlbr env (h ! t)) tracks_b);
          matching_pairs = concat (map (\<lambda>i. map (\<lambda>j. (i, j))
                              (filter (\<lambda>j. pairwise_distance ! i ! j < 0.15) [0..<length tracks_b]))
                              [0..<length tracks_a]);
          dups = foldl (duplicate_step h tracks_a tracks_b) ({}, {}) matching_pairs
      in (map snd (filter (\<lambda>p. fst p \<notin> fst dups) (enumerate 0 tracks_a)),
          map snd (filter (\<lambda>p. fst p \<notin> snd dups) (enumerate 0 tracks_b))))"

subsection \<open>update_with_tensors\<close>

text \<open>Indexing an array with a boolean mask.\<close>

definition np_mask :: "'a list \<Rightarrow> bool list \<Rightarrow> 'a list" where
  "np_mask xs msk = map fst (filter snd (zip xs msk))"

text \<open>The three masks over the scores (lines 213 to 217).\<close>

definition remain_inds :: "real \<Rightarrow> real list \<Rightarrow> bool list" where
  "remain_inds thr scores = map (\<lambda>sc. sc > thr) scores"

definition inds_second :: "real \<Rightarrow> real list \<Rightarrow> bool list" where
  "inds_second thr scores =
     (let inds_low = map (\<lambda>sc. sc > 0.1) scores;
          inds_high = map (\<lambda>sc. sc < thr) scores
      in map (\<lambda>p. fst p \<and> snd p) (zip inds_low inds_high))"

text \<open>The \<open>STrack\<close> objects built from the selected rows (lines 225 to 235 and 274 to
  284).\<close>

definition make_detections :: "int \<Rightarrow> box list \<Rightarrow> real list \<Rightarrow> 'k STrack list" where
  "make_detections mcf dets scores =
     map (\<lambda>p. new_STrack (tlbr_to_tlwh (fst p)) (snd p) mcf) (zip dets scores)"

text \<open>The local variables of \<open>update_with_tensors\<close>, with the store of the track
  objects and the two counters that the calls on tracks change. A detection is an
  \<open>STrack\<close> that no list of the tracker holds yet, so it is kept as a value until
  \<open>activate\<close> makes it a track.\<close>

record 'k locals =
  store :: "'k STrack list"
  icounter :: IdCounter
  ecounter :: IdCounter
  activated_starcks :: "nat list"
  refind_stracks :: "nat list"
  lost_stracks :: "nat list"
  removed_stracks :: "nat list"
  detections :: "'k STrack list"
  detections_second :: "'k STrack list"
  unconfirmed :: "nat list"
  strack_pool :: "nat list"
  r_tracked_stracks :: "nat list"
  u_track :: "nat list"
  u_detection :: "nat list"

text \<open>Lines 204 to 252: the detections above the activation threshold, the split of
  the class's tracks into unconfirmed and confirmed ones, the pool, and the prediction
  of the pool.\<close>

definition uwt_begin :: "'k deps \<Rightarrow> 'k BYTETrack \<Rightarrow> (box \<times> real) list \<Rightarrow> 'k locals" where
  "uwt_begin env s tensors =
     (let scores = map snd tensors;
          bboxes = map fst tensors;
          thr = track_activation_threshold s;
          dets = np_mask bboxes (remain_inds thr scores);
          scores_keep = np_mask scores (remain_inds thr scores);
          tracked_stracks = filter (\<lambda>a. is_activated (heap s ! a)) (tracked_tracks s);
          pool = joint_tracks (heap s) tracked_stracks (lost_tracks s)
      in \<lparr>store = multi_predict env pool (heap s),
          icounter = internal_id_counter s,
          ecounter = external_id_counter s,
          activated_starcks = [], refind_stracks = [], lost_stracks = [],
          removed_stracks = [],
          detections = make_detections (minimum_consecutive_frames s) dets scores_keep,
          detections_second = [],
          unconfirmed = filter (\<lambda>a. \<not> is_activated (heap s ! a)) (tracked_tracks s),
          strack_pool = pool, r_tracked_stracks = [], u_track = [], u_detection = []\<rparr>)"

text \<open>The body of the loops over the matches of the first and second association
  (lines 260 to 268 and 296 to 304), over the tracks \<open>pool\<close> and the detections \<open>dets\<close>.\<close>

definition match_step ::
  "'k deps \<Rightarrow> int \<Rightarrow> nat list \<Rightarrow> 'k STrack list \<Rightarrow> 'k locals \<Rightarrow> nat \<times> nat \<Rightarrow> 'k locals" where
  "match_step env fid pool dets l m =
     (let a = pool ! fst m; det = dets ! snd m in
      if state (store l ! a) = Tracked
      then (let r = STrack_update env (store l ! a) det fid (ecounter l)
            in l\<lparr>store := (store l)[a := fst r], ecounter := snd r,
                 activated_starcks := activated_starcks l @ [a]\<rparr>)
      else l\<lparr>store := (store l)[a := STrack_re_activate env (store l ! a) det fid],
             refind_stracks := refind_stracks l @ [a]\<rparr>)"

text \<open>Lines 253 to 268: the first association, of the pool with the detections.\<close>

definition first_association :: "'k deps \<Rightarrow> 'k BYTETrack \<Rightarrow> 'k locals \<Rightarrow> 'k locals" where
  "first_association env s l =
     (let dists = fuse_score
                    (iou_distance (map (\<lambda>a. tlbr env (store l ! a)) (strack_pool l))
                       (map (tlbr env) (detections l)))
                    (map score (detections l));
          la = linear_assignment env (length (strack_pool l)) (length (detections l)) dists
                 (minimum_matching_threshold s)
      in foldl (match_step env (frame_id s + 1) (strack_pool l) (detections l))
           (l\<lparr>u_track := fst (snd la), u_detection := snd (snd la)\<rparr>) (fst la))"

text \<open>Lines 306 to 310: the tracks still unmatched become Lost.\<close>

definition lost_step :: "'k locals \<Rightarrow> nat \<Rightarrow> 'k locals" where
  "lost_step l it =
     (let a = r_tracked_stracks l ! it in
      if state (store l ! a) \<noteq> Lost
      then l\<lparr>store := (store l)[a := (store l ! a)\<lparr>state := Lost\<rparr>],
             lost_stracks := lost_stracks l @ [a]\<rparr>
      else l)"

text \<open>Lines 270 to 310: the second association, of the tracks of the pool that are
  unmatched and Tracked with the detections of low score.\<close>

definition second_association ::
  "'k deps \<Rightarrow> 'k BYTETrack \<Rightarrow> (box \<times> real) list \<Rightarrow> 'k locals \<Rightarrow> 'k locals" where
  "second_association env s tensors l =
     (let scores = map snd tensors;
          bboxes = map fst tensors;
          thr = track_activation_threshold s;
          dets_second = np_mask bboxes (inds_second thr scores);
          scores_second = np_mask scores (inds_second thr scores);
          dsec = make_detections (minimum_consecutive_frames s) dets_second scores_second;
          r_tracked = map (\<lambda>i. strack_pool l ! i)
                        (filter (\<lambda>i. state (store l ! (strack_pool l ! i)) = Tracked) (u_track l));
          dists = iou_distance (map (\<lambda>a. tlbr env (store l ! a)) r_tracked)
                    (map (tlbr env) dsec);
          la = linear_assignment env (length r_tracked) (length dsec) dists 0.5;
          l1 = foldl (match_step env (frame_id s + 1) r_tracked dsec)
                 (l\<lparr>detections_second := dsec, r_tracked_stracks := r_tracked\<rparr>) (fst la)
      in foldl lost_step (l1\<lparr>u_track := fst (snd la)\<rparr>) (fst (snd la)))"

text \<open>Lines 320 to 322: an unconfirmed track matched with a detection is updated.\<close>

definition confirm_step :: "'k deps \<Rightarrow> int \<Rightarrow> 'k locals \<Rightarrow> nat \<times> nat \<Rightarrow> 'k locals" where
  "confirm_step env fid l m =
     (let a = unconfirmed l ! fst m;
          r = STrack_update env (store l ! a) (detections l ! snd m) fid (ecounter l)
      in l\<lparr>store := (store l)[a := fst r], ecounter := snd r,
           activated_starcks := activated_starcks l @ [a]\<rparr>)"

text \<open>Lines 323 to 326: an unconfirmed track left unmatched is Removed.\<close>

definition removed_step :: "'k locals \<Rightarrow> nat \<Rightarrow> 'k locals" where
  "removed_step l it =
     (let a = unconfirmed l ! it
      in l\<lparr>store := (store l)[a := (store l ! a)\<lparr>state := Removed\<rparr>],
           removed_stracks := removed_stracks l @ [a]\<rparr>)"

text \<open>Lines 312 to 326: the unconfirmed tracks against the detections left by the
  first association.\<close>

definition unconfirmed_association :: "'k deps \<Rightarrow> 'k BYTETrack \<Rightarrow> 'k locals \<Rightarrow> 'k locals" where
  "unconfirmed_association env s l =
     (let dets = map (\<lambda>i. detections l ! i) (u_detection l);
          dists = fuse_score
                    (iou_distance (map (\<lambda>a. tlbr env (store l ! a)) (unconfirmed l))
                       (map (tlbr env) dets))
                    (map score dets);
          la = linear_assignment env (length (unconfirmed l)) (length dets) dists 0.7;
          l1 = foldl (confirm_step env (frame_id s + 1))
                 (l\<lparr>detections := dets, u_detection := snd (snd la)\<rparr>) (fst la)
      in foldl removed_step l1 (fst (snd la)))"

text \<open>Lines 329 to 334: a detection left over starts a track when its score reaches
  \<open>det_thresh\<close>. The detection object itself becomes the track: it enters the store
  here, at a fresh address.\<close>

definition init_step :: "'k deps \<Rightarrow> int \<Rightarrow> real \<Rightarrow> 'k locals \<Rightarrow> nat \<Rightarrow> 'k locals" where
  "init_step env fid dthresh l inew =
     (let track = detections l ! inew in
      if score track < dthresh then l
      else (let r = STrack_activate env track fid (icounter l) (ecounter l)
            in l\<lparr>store := store l @ [fst r], icounter := fst (snd r), ecounter := snd (snd r),
                 activated_starcks := activated_starcks l @ [length (store l)]\<rparr>))"

definition init_new_stracks :: "'k deps \<Rightarrow> 'k BYTETrack \<Rightarrow> 'k locals \<Rightarrow> 'k locals" where
  "init_new_stracks env s l =
     foldl (init_step env (frame_id s + 1) (det_thresh s)) l (u_detection l)"

text \<open>Lines 336 to 339: a track of \<open>lost_tracks\<close> whose last frame is more than
  \<open>max_time_lost\<close> frames back is Removed.\<close>

definition expire_step :: "int \<Rightarrow> int \<Rightarrow> 'k locals \<Rightarrow> nat \<Rightarrow> 'k locals" where
  "expire_step fid mtl l a =
     (if fid - track_frame_id (store l ! a) > mtl
      then l\<lparr>store := (store l)[a := (store l ! a)\<lparr>state := Removed\<rparr>],
             removed_stracks := removed_stracks l @ [a]\<rparr>
      else l)"

definition expire_lost :: "'k BYTETrack \<Rightarrow> 'k locals \<Rightarrow> 'k locals" where
  "expire_lost s l = foldl (expire_step (frame_id s + 1) (max_time_lost s)) l (lost_tracks s)"

text \<open>Lines 341 to 355: the new lists of the tracker, and the tracks returned.\<close>

definition update_state :: "'k deps \<Rightarrow> 'k BYTETrack \<Rightarrow> 'k locals \<Rightarrow> 'k BYTETrack \<times> nat list" where
  "update_state env s l =
     (let h = store l;
          tracked1 = filter (\<lambda>a. state (h ! a) = Tracked) (tracked_tracks s);
          tracked2 = joint_tracks h tracked1 (activated_starcks l);
          tracked3 = joint_tracks h tracked2 (refind_stracks l);
          lost1 = sub_tracks h (lost_tracks s) tracked3;
          lost2 = lost1 @ lost_stracks l;
          lost3 = sub_tracks h lost2 (removed_tracks s);
          dedup = remove_duplicate_tracks env h tracked3 lost3
      in (s\<lparr>frame_id := frame_id s + 1,
             tracked_tracks := fst dedup,
             lost_tracks := snd dedup,
             removed_tracks := removed_stracks l,
             internal_id_counter := icounter l,
             external_id_counter := ecounter l,
             heap := h\<rparr>,
          filter (\<lambda>a. is_activated (h ! a)) (fst dedup)))"

text \<open>\<open>update_with_tensors\<close>: a row of \<open>tensors\<close> is a box and a score. The result is
  the tracker after the call and the list \<open>output_stracks\<close>.\<close>

definition update_with_tensors ::
  "'k deps \<Rightarrow> 'k BYTETrack \<Rightarrow> (box \<times> real) list \<Rightarrow> 'k BYTETrack \<times> nat list" where
  "update_with_tensors env s tensors =
     update_state env s
       (expire_lost s
          (init_new_stracks env s
             (unconfirmed_association env s
                (second_association env s tensors
                   (first_association env s (uwt_begin env s tensors))))))"

subsection \<open>single_cls_update\<close>

text \<open>Lines 170 and 171: the id of the matched track is written at the detection's
  index (in range: \<open>linear_assignment\<close> returns indices of the matrix).\<close>

definition write_id ::
  "'k STrack list \<Rightarrow> nat list \<Rightarrow> int list \<Rightarrow> nat \<times> nat \<Rightarrow> int list" where
  "write_id h tracks track_id_array m =
     track_id_array[fst m := external_track_id (h ! (tracks ! snd m))]"

text \<open>\<open>single_cls_update\<close>: the boxes and the scores of one class. The rows of
  \<open>tensors\<close> pair the two arrays, which \<open>update\<close> always passes with one length.\<close>

definition single_cls_update ::
  "'k deps \<Rightarrow> 'k BYTETrack \<Rightarrow> box list \<Rightarrow> real list \<Rightarrow> 'k BYTETrack \<times> int list" where
  "single_cls_update env s xyxy_array conf_array =
     (if length xyxy_array * length conf_array = 0 then (s, [])
      else
        (let tensors = zip xyxy_array conf_array;
             r = update_with_tensors env s tensors;
             s' = fst r;
             tracks = snd r
         in if length tracks > 0
            then
              (let ious = box_iou_batch (map fst tensors)
                            (map (\<lambda>a. tlbr env (heap s' ! a)) tracks);
                   iou_costs = map (map (\<lambda>v. 1 - v)) ious;
                   la = linear_assignment env (length tensors) (length tracks) iou_costs 0.5
               in (s', foldl (write_id (heap s') tracks)
                         (replicate (length conf_array) (- 1)) (fst la)))
            else (s', replicate (length conf_array) (- 1))))"

subsection \<open>update\<close>

text \<open>\<open>_cls_group\<close>: \<open>cls2boxes\<close>, a dict with the keys \<open>range(n_classes)\<close>, is the list of
  its values in key order. \<open>zip\<close> stops at the shortest of the three arrays; a class
  id that is not a key raises KeyError.\<close>

type_synonym cls_boxes = "box list \<times> real list \<times> nat list"

fun cls_group_loop ::
  "cls_boxes list \<Rightarrow> nat \<Rightarrow> (box \<times> real \<times> int) list \<Rightarrow> error + cls_boxes list" where
  "cls_group_loop g order [] = Inr g"
| "cls_group_loop g order ((xyxy, conf, cls_id) # rest) =
     (if 0 \<le> cls_id \<and> nat cls_id < length g
      then (case g ! nat cls_id of (bs, cs, os) \<Rightarrow>
              cls_group_loop (g[nat cls_id := (bs @ [xyxy], cs @ [conf], os @ [order])])
                (Suc order) rest)
      else Inl KeyError)"

definition cls_group ::
  "'k BYTETrack \<Rightarrow> box list \<Rightarrow> real list \<Rightarrow> int list \<Rightarrow> error + cls_boxes list" where
  "cls_group s xyxy_array conf_array cls_array =
     cls_group_loop (replicate (nat (n_classes s)) ([], [], [])) 0
       (zip xyxy_array (zip conf_array cls_array))"

text \<open>\<open>np.argsort\<close> of a list of distinct numbers: the indices in the order of the
  values.\<close>

definition argsort :: "nat list \<Rightarrow> nat list" where
  "argsort xs = map snd (sort_key fst (zip xs [0..<length xs]))"

text \<open>The loop of \<open>update\<close> over \<open>range(n_classes)\<close> (lines 118 to 132), carrying the
  tracker, \<open>track_id_array\<close> and \<open>orig_order\<close>. Reading \<open>cls2tracked_tracks\<close> at a class
  that is not a key raises KeyError.\<close>

fun cls_loop ::
  "'k deps \<Rightarrow> int \<Rightarrow> cls_boxes list \<Rightarrow> nat list \<Rightarrow> 'k BYTETrack \<Rightarrow> int list \<Rightarrow> nat list \<Rightarrow>
   'k BYTETrack \<times> (error + int list \<times> nat list)" where
  "cls_loop env cur g [] s track_id_array orig_order = (s, Inr (track_id_array, orig_order))"
| "cls_loop env cur g (cls_id # rest) s track_id_array orig_order =
     (case g ! cls_id of (cls_xyxy_array, cls_conf_array, cls_box_order_list) \<Rightarrow>
        if length cls_xyxy_array < 1 then cls_loop env cur g rest s track_id_array orig_order
        else if cls_id < length (cls2tracked_tracks s) then
          (let s1 = s\<lparr>tracked_tracks := cls2tracked_tracks s ! cls_id, frame_id := cur\<rparr>;
               r = single_cls_update env s1 cls_xyxy_array cls_conf_array;
               s2 = (fst r)\<lparr>cls2tracked_tracks :=
                              (cls2tracked_tracks (fst r))[cls_id := tracked_tracks (fst r)]\<rparr>
           in cls_loop env cur g rest s2 (track_id_array @ snd r)
                (orig_order @ cls_box_order_list))
        else (s, Inl KeyError))"

text \<open>\<open>BYTETrack.update\<close>: the tracker after the call, and the error raised or the array
  returned.\<close>

definition update ::
  "'k deps \<Rightarrow> 'k BYTETrack \<Rightarrow> box list \<Rightarrow> real list \<Rightarrow> int list \<Rightarrow>
   'k BYTETrack \<times> (error + int list)" where
  "update env s xyxy_array conf_array cls_array =
     (case cls_group s xyxy_array conf_array cls_array of
        Inl e \<Rightarrow> (s, Inl e)
      | Inr cls2boxes \<Rightarrow>
          (case cls_loop env (frame_id s) cls2boxes [0..<nat (n_classes s)] s [] [] of
             (s', Inl e) \<Rightarrow> (s', Inl e)
           | (s', Inr (track_id_array, orig_order)) \<Rightarrow>
               (s'\<lparr>frame_id := frame_id s + 1\<rparr>,
                Inr (map (\<lambda>i. track_id_array ! i) (argsort orig_order)))))"

subsection \<open>A sequence of calls\<close>

text \<open>The caller's loop over the frames: \<open>update\<close> is called on one tracker with the
  arrays of each frame in turn; the results (an error or an array) are collected.\<close>

fun run_updates ::
  "'k deps \<Rightarrow> 'k BYTETrack \<Rightarrow> (box list \<times> real list \<times> int list) list \<Rightarrow>
   'k BYTETrack \<times> (error + int list) list" where
  "run_updates env s [] = (s, [])"
| "run_updates env s (f # fs) =
     (case update env s (fst f) (fst (snd f)) (snd (snd f)) of
        (s1, r) \<Rightarrow> (case run_updates env s1 fs of (s2, rs) \<Rightarrow> (s2, r # rs)))"

section \<open>Notions of the specification\<close>

text \<open>Python's \<open>round\<close>, which the specification uses for the expiry window: the
  nearest integer, a tie going to the even one.\<close>

definition py_round :: "real \<Rightarrow> int" where
  "py_round x =
     (let f = \<lfloor>x\<rfloor>; d = x - of_int f
      in if d < 1 / 2 then f else if d > 1 / 2 then f + 1
         else if even f then f else f + 1)"

section \<open>Auxiliary notions of the proofs\<close>

text \<open>The rows of class \<open>c\<close> among the zipped input, each with its position (counted
  from \<open>k\<close>), and an entry of \<open>cls2boxes\<close> extended by such rows.\<close>

definition cls_rows :: "nat \<Rightarrow> nat \<Rightarrow> (box \<times> real \<times> int) list \<Rightarrow> (nat \<times> box \<times> real \<times> int) list" where
  "cls_rows c k zs = filter (\<lambda>p. snd (snd (snd p)) = int c) (enumerate k zs)"

definition cls_entry :: "cls_boxes \<Rightarrow> (nat \<times> box \<times> real \<times> int) list \<Rightarrow> cls_boxes" where
  "cls_entry e rows =
     (case e of (bs, cs, os) \<Rightarrow>
        (bs @ map (\<lambda>p. fst (snd p)) rows, cs @ map (\<lambda>p. fst (snd (snd p))) rows,
         os @ map fst rows))"

text \<open>A row whose class id is a key of the tables of a tracker with \<open>n\<close> classes.\<close>

definition class_ok :: "int \<Rightarrow> box \<times> real \<times> int \<Rightarrow> bool" where
  "class_ok n z = (0 \<le> snd (snd z) \<and> snd (snd z) < n)"

text \<open>The external id of a track is the sentinel or a value that the external counter
  \<open>ec\<close> has returned (from 1 up to its current value, excluded), and an activated track
  has an id.\<close>

definition idok :: "IdCounter \<Rightarrow> 'k STrack \<Rightarrow> bool" where
  "idok ec t =
     ((external_track_id t = NO_ID \<or>
       (1 \<le> external_track_id t \<and> external_track_id t < counter_id ec)) \<and>
      (is_activated t \<longrightarrow> external_track_id t \<noteq> NO_ID))"











section \<open>An instance of the parameters\<close>

text \<open>To run the model on concrete inputs: a motion filter whose state is the last
  measured box (no motion), and a solver that gives each row, in order, the first free
  column whose cost is below the threshold (exact on a matrix with at most one entry
  below the threshold, which is all that the runs of this development need). The
  general theorems hold for every instance.\<close>

fun first_fit :: "nat \<Rightarrow> nat list \<Rightarrow> real list list \<Rightarrow> real \<Rightarrow> (nat \<times> nat) list" where
  "first_fit i used [] thr = []"
| "first_fit i used (row # rows) thr =
     (case filter (\<lambda>j. j \<notin> set used \<and> row ! j < thr) [0..<length row] of
        [] \<Rightarrow> first_fit (Suc i) used rows thr
      | j # _ \<Rightarrow> (i, j) # first_fit (Suc i) (j # used) rows thr)"

definition static_deps :: "box deps" where
  "static_deps =
     \<lparr>kf_initiate = (\<lambda>b. b), kf_predict = (\<lambda>st m. m), kf_update = (\<lambda>m b. b),
      kf_tlwh = (\<lambda>m. m), lap_solver = first_fit 0 []\<rparr>"

text \<open>A run on one class with the default window of 30 frames: the detection of
  frame 1 starts a track; the only detection of frame 2 is elsewhere, so that track
  becomes Lost; the frames 3 to 42 have no detection.\<close>

definition lost_run :: "box BYTETrack" where
  "lost_run =
     fst (run_updates static_deps (projr (BYTETrack_init 1 (1/4) 30 (4/5) 30 1))
            (([(0, 0, 10, 10)], [9/10], [0]) # ([(100, 100, 110, 110)], [9/10], [0]) #
             replicate 40 ([], [], [])))"

section \<open>Theorems\<close>

subsection \<open>Identity allocators and construction\<close>

lemma new_id_value: "fst (new_id c) = counter_id c"
  by (simp add: new_id_def)

text \<open>C9, as the code has it: an identity allocator refuses exactly the start ids that
  are not greater than the sentinel -1; the constructor of the tracker checks nothing
  about \<open>n_classes\<close> and succeeds for every value, with as many per-class lists as
  \<open>range(n_classes)\<close> has members (none when \<open>n_classes < 1\<close>).\<close>

theorem construct_validation:
  "(IdCounter_init start = Inl ValueError) = (start \<le> - 1) \<and>
   (\<exists>s :: 'k BYTETrack. BYTETrack_init ncls tat ltb mmt fr mcf = Inr s \<and> n_classes s = ncls \<and>
      cls2tracked_tracks s = replicate (nat ncls) [])"
  by (simp add: BYTETrack_init_def IdCounter_init_def NO_ID_def)

text \<open>C9 as stated fails: a tracker with \<open>n_classes = 0\<close> is constructed without an
  error.\<close>

theorem construct_n_classes_zero:
  "isl (BYTETrack_init 0 (1/4) 30 (4/5) 30 1 :: error + unit BYTETrack) = False \<and>
   cls2tracked_tracks (projr (BYTETrack_init 0 (1/4) 30 (4/5) 30 1 :: error + unit BYTETrack)) = []"
  by (simp add: BYTETrack_init_def IdCounter_init_def NO_ID_def)

subsection \<open>The confidence buckets\<close>

text \<open>A row is kept for the first association when its score is above the threshold,
  and for the second when it lies strictly between 0.1 and the threshold.\<close>

lemma buckets_general:
  "np_mask (map fst tensors) (remain_inds thr (map snd tensors)) =
     map fst (filter (\<lambda>r. snd r > thr) tensors) \<and>
   np_mask (map fst tensors) (inds_second thr (map snd tensors)) =
     map fst (filter (\<lambda>r. snd r > 0.1 \<and> snd r < thr) tensors)"
  by (induction tensors) (auto simp add: np_mask_def remain_inds_def inds_second_def Let_def)

text \<open>C3 at the boundary: with the threshold 0.25, a detection of score exactly 0.25
  is in neither bucket, although its score is above 0.1. On a tracker that follows a
  track at \<open>[0, 0, 10, 10]\<close>, a detection there of score 0.25 is reported unassigned and
  the track becomes Lost, while the same detection with the lower score 0.2 is
  matched in the second association and reported under the id of the track.\<close>

theorem threshold_boundary_dropped:
  "(let s0 = projr (BYTETrack_init 1 (1/4) 30 (4/5) 30 1);
        s1 = fst (update static_deps s0 [(0, 0, 10, 10)] [9/10] [0]);
        ra = update static_deps s1 [(0, 0, 10, 10)] [1/4] [0];
        rb = update static_deps s1 [(0, 0, 10, 10)] [1/5] [0]
    in np_mask [(0, 0, 10, 10) :: box] (remain_inds (1/4) [1/4]) = [] \<and>
       np_mask [(0, 0, 10, 10) :: box] (inds_second (1/4) [1/4]) = [] \<and>
       snd ra = Inr [- 1] \<and> map state (heap (fst ra)) = [Lost] \<and>
       snd rb = Inr [1] \<and> map state (heap (fst rb)) = [Tracked])"
  by code_simp

subsection \<open>Geometric overlap\<close>

lemma area_inter_nonneg: "0 \<le> area_inter a b"
  by (cases a; cases b) (simp add: area_inter_def)

lemma area_inter_pos_le:
  assumes "0 < area_inter a b"
  shows "area_inter a b \<le> box_area a" "area_inter a b \<le> box_area b"
proof -
  obtain ax1 ay1 ax2 ay2 where a: "a = (ax1, ay1, ax2, ay2)" by (cases a)
  obtain bx1 by1 bx2 by2 where b: "b = (bx1, by1, bx2, by2)" by (cases b)
  let ?w = "min ax2 bx2 - max ax1 bx1" and ?h = "min ay2 by2 - max ay1 by1"
  from assms have p: "0 < max 0 ?w * max 0 ?h" by (simp add: a b area_inter_def)
  have w: "0 < ?w"
  proof (rule ccontr)
    assume "\<not> 0 < ?w" then have "?w \<le> 0" by linarith
    then have "max 0 ?w = 0" by (rule max_absorb1)
    with p show False by simp
  qed
  have h: "0 < ?h"
  proof (rule ccontr)
    assume "\<not> 0 < ?h" then have "?h \<le> 0" by linarith
    then have "max 0 ?h = 0" by (rule max_absorb1)
    with p show False by simp
  qed
  have e: "area_inter a b = ?w * ?h" using w h by (simp add: a b area_inter_def max_def)
  have "?w * ?h \<le> (ax2 - ax1) * (ay2 - ay1)"
    by (rule mult_mono) (use w h in auto)
  moreover have "box_area a = (ax2 - ax1) * (ay2 - ay1)" by (simp add: a box_area_def)
  ultimately show "area_inter a b \<le> box_area a" using e by linarith
  have "?w * ?h \<le> (bx2 - bx1) * (by2 - by1)"
    by (rule mult_mono) (use w h in auto)
  moreover have "box_area b = (bx2 - bx1) * (by2 - by1)" by (simp add: b box_area_def)
  ultimately show "area_inter a b \<le> box_area b" using e by linarith
qed

text \<open>A divisor of zero only meets a dividend of zero: the division gives a number or
  NaN, never an infinity.\<close>

lemma zero_denominator_zero_inter:
  assumes z: "iou_denominator a b = 0"
  shows "area_inter a b = 0"
proof -
  have "\<not> 0 < area_inter a b"
  proof
    assume p: "0 < area_inter a b"
    have "area_inter a b \<le> box_area b" by (rule area_inter_pos_le(2)[OF p])
    moreover have "0 < box_area a" using area_inter_pos_le(1)[OF p] p by linarith
    ultimately show False using z by (simp add: iou_denominator_def)
  qed
  then show ?thesis using area_inter_nonneg[of a b] by linarith
qed

lemma iou_raw_finite_or_nan: "iou_raw a b = NaN \<or> (\<exists>x. iou_raw a b = Finite x)"
proof (cases "iou_denominator a b = 0")
  case True
  then show ?thesis
    using zero_denominator_zero_inter[OF True] by (simp add: iou_raw_def np_divide_def)
next
  case False
  then show ?thesis by (simp add: iou_raw_def np_divide_def)
qed

lemma box_iou_range: "0 \<le> box_iou a b \<and> box_iou a b \<le> 1"
proof (cases "0 < area_inter a b")
  case True
  have d: "area_inter a b \<le> iou_denominator a b"
    using area_inter_pos_le[OF True] by (simp add: iou_denominator_def)
  then have pos: "0 < iou_denominator a b" using True by linarith
  then show ?thesis using d True
    by (simp add: box_iou_def iou_raw_def np_divide_def nan_to_num_def)
next
  case False
  then have z: "area_inter a b = 0" using area_inter_nonneg[of a b] by linarith
  show ?thesis
    by (simp add: box_iou_def iou_raw_def np_divide_def nan_to_num_def z)
qed

lemma box_iou_degenerate: "iou_denominator a b = 0 \<Longrightarrow> box_iou a b = 0"
  using zero_denominator_zero_inter[of a b]
  by (simp add: box_iou_def iou_raw_def np_divide_def nan_to_num_def)

text \<open>C7: for \<open>N\<close> and \<open>M\<close> boxes the result has \<open>N\<close> rows of \<open>M\<close> entries; the entry
  at \<open>(i, j)\<close> is the overlap of box \<open>i\<close> with box \<open>j\<close>, lies between 0 and 1, comes
  from a division that gave a number or NaN (never an infinity), and is 0 whenever the
  divisor is zero.\<close>

theorem box_iou_batch_safe:
  "length (box_iou_batch A B) = length A \<and>
   (\<forall>i < length A. length (box_iou_batch A B ! i) = length B \<and>
      (\<forall>j < length B.
         box_iou_batch A B ! i ! j = box_iou (A ! i) (B ! j) \<and>
         0 \<le> box_iou_batch A B ! i ! j \<and> box_iou_batch A B ! i ! j \<le> 1 \<and>
         iou_raw (A ! i) (B ! j) \<noteq> PosInf \<and> iou_raw (A ! i) (B ! j) \<noteq> NegInf \<and>
         (iou_denominator (A ! i) (B ! j) = 0 \<longrightarrow> box_iou_batch A B ! i ! j = 0)))"
proof (intro conjI allI impI)
  show "length (box_iou_batch A B) = length A" by (simp add: box_iou_batch_def)
next
  fix i assume i: "i < length A"
  show "length (box_iou_batch A B ! i) = length B" using i by (simp add: box_iou_batch_def)
  fix j assume j: "j < length B"
  have e: "box_iou_batch A B ! i ! j = box_iou (A ! i) (B ! j)"
    using i j by (simp add: box_iou_batch_def)
  show "box_iou_batch A B ! i ! j = box_iou (A ! i) (B ! j)" by (rule e)
  show "0 \<le> box_iou_batch A B ! i ! j" using box_iou_range[of "A ! i" "B ! j"] e by simp
  show "box_iou_batch A B ! i ! j \<le> 1" using box_iou_range[of "A ! i" "B ! j"] e by simp
  show "iou_raw (A ! i) (B ! j) \<noteq> PosInf"
    using iou_raw_finite_or_nan[of "A ! i" "B ! j"] by auto
  show "iou_raw (A ! i) (B ! j) \<noteq> NegInf"
    using iou_raw_finite_or_nan[of "A ! i" "B ! j"] by auto
  assume "iou_denominator (A ! i) (B ! j) = 0"
  then show "box_iou_batch A B ! i ! j = 0" using box_iou_degenerate e by simp
qed

text \<open>The theorem at two boxes, one of them of zero area: the pair of the degenerate
  box with itself has the divisor 0 and the entry 0.\<close>

theorem box_iou_batch_safe_witness:
  "iou_denominator ([(0, 0, 10, 10), (5, 5, 5, 5)] ! 1) ([(0, 0, 10, 10), (5, 5, 5, 5)] ! 1) = 0 \<and>
   box_iou_batch [(0, 0, 10, 10), (5, 5, 5, 5)] [(0, 0, 10, 10), (5, 5, 5, 5)] ! 1 ! 1 = 0 \<and>
   box_iou_batch [(0, 0, 10, 10), (5, 5, 5, 5)] [(0, 0, 10, 10), (5, 5, 5, 5)] ! 0 ! 0 \<le> 1 \<and>
   length (box_iou_batch [(0, 0, 10, 10), (5, 5, 5, 5)] [(0, 0, 10, 10), (5, 5, 5, 5)]) = 2"
proof -
  have z: "iou_denominator ([(0, 0, 10, 10), (5, 5, 5, 5)] ! 1) ([(0, 0, 10, 10), (5, 5, 5, 5)] ! 1) = 0"
    by (simp add: iou_denominator_def box_area_def area_inter_def)
  show ?thesis
    using z box_iou_batch_safe[of "[(0, 0, 10, 10), (5, 5, 5, 5)]" "[(0, 0, 10, 10), (5, 5, 5, 5)]"]
    by (simp add: numeral_2_eq_2 less_Suc_eq all_conj_distrib)
qed

subsection \<open>Grouping by class\<close>

lemma cls_entry_Nil: "cls_entry e [] = e"
  by (cases e) (simp add: cls_entry_def)

lemma cls_group_loop_valid:
  assumes "\<forall>z\<in>set zs. 0 \<le> snd (snd z) \<and> nat (snd (snd z)) < length g"
  shows "cls_group_loop g k zs =
           Inr (map (\<lambda>c. cls_entry (g ! c) (cls_rows c k zs)) [0..<length g])"
  using assms
proof (induction zs arbitrary: g k)
  case Nil
  show ?case by (simp add: cls_rows_def cls_entry_Nil map_nth)
next
  case (Cons z zs)
  obtain x cf cl where z: "z = (x, cf, cl)" by (cases z)
  obtain bs cs os where e: "g ! nat cl = (bs, cs, os)" by (cases "g ! nat cl")
  let ?g = "g[nat cl := (bs @ [x], cs @ [cf], os @ [k])]"
  have v: "0 \<le> cl" "nat cl < length g" using Cons.prems z by auto
  have r: "\<forall>z\<in>set zs. 0 \<le> snd (snd z) \<and> nat (snd (snd z)) < length ?g"
    using Cons.prems by simp
  have step: "cls_group_loop g k (z # zs) = cls_group_loop ?g (Suc k) zs"
    using v z e by simp
  have "map (\<lambda>c. cls_entry (?g ! c) (cls_rows c (Suc k) zs)) [0..<length ?g] =
        map (\<lambda>c. cls_entry (g ! c) (cls_rows c k (z # zs))) [0..<length g]"
  proof (rule nth_equalityI)
    show "length (map (\<lambda>c. cls_entry (?g ! c) (cls_rows c (Suc k) zs)) [0..<length ?g]) =
          length (map (\<lambda>c. cls_entry (g ! c) (cls_rows c k (z # zs))) [0..<length g])" by simp
  next
    fix c assume "c < length (map (\<lambda>c. cls_entry (?g ! c) (cls_rows c (Suc k) zs)) [0..<length ?g])"
    then have c: "c < length g" by simp
    show "map (\<lambda>c. cls_entry (?g ! c) (cls_rows c (Suc k) zs)) [0..<length ?g] ! c =
          map (\<lambda>c. cls_entry (g ! c) (cls_rows c k (z # zs))) [0..<length g] ! c"
    proof (cases "c = nat cl")
      case True
      then have "int c = cl" using v by simp
      then show ?thesis using c True e z
        by (simp add: cls_rows_def cls_entry_def)
    next
      case False
      then have "int c \<noteq> cl" using v by auto
      then show ?thesis using c False z
        by (simp add: cls_rows_def)
    qed
  qed
  then show ?case using Cons.IH[OF r, of "Suc k"] step by simp
qed

lemma cls_group_loop_error:
  assumes "\<exists>z\<in>set zs. \<not> (0 \<le> snd (snd z) \<and> nat (snd (snd z)) < length g)"
  shows "cls_group_loop g k zs = Inl KeyError"
  using assms
proof (induction zs arbitrary: g k)
  case Nil
  then show ?case by simp
next
  case (Cons z zs)
  obtain x cf cl where z: "z = (x, cf, cl)" by (cases z)
  show ?case
  proof (cases "0 \<le> cl \<and> nat cl < length g")
    case False
    then show ?thesis using z by auto
  next
    case True
    obtain bs cs os where e: "g ! nat cl = (bs, cs, os)" by (cases "g ! nat cl")
    let ?g = "g[nat cl := (bs @ [x], cs @ [cf], os @ [k])]"
    have "\<exists>z\<in>set zs. \<not> (0 \<le> snd (snd z) \<and> nat (snd (snd z)) < length ?g)"
      using Cons.prems True z by auto
    then have "cls_group_loop ?g (Suc k) zs = Inl KeyError" by (rule Cons.IH)
    then show ?thesis using True z e by simp
  qed
qed

lemma cls_entry_empty:
  "cls_entry ([], [], []) rows =
     (map (\<lambda>p. fst (snd p)) rows, map (\<lambda>p. fst (snd (snd p))) rows, map fst rows)"
  by (simp add: cls_entry_def)

lemma cls_group_valid:
  assumes "\<forall>z\<in>set (zip xyxy (zip conf cls)). class_ok (n_classes s) z"
  shows "cls_group s xyxy conf cls =
           Inr (map (\<lambda>c. cls_entry ([], [], []) (cls_rows c 0 (zip xyxy (zip conf cls))))
                  [0..<nat (n_classes s)])"
proof -
  let ?g = "replicate (nat (n_classes s)) (([], [], []) :: cls_boxes)"
  have "\<forall>z\<in>set (zip xyxy (zip conf cls)). 0 \<le> snd (snd z) \<and> nat (snd (snd z)) < length ?g"
    using assms by (auto simp add: class_ok_def)
  from cls_group_loop_valid[OF this, of 0]
  have "cls_group s xyxy conf cls =
      Inr (map (\<lambda>c. cls_entry (?g ! c) (cls_rows c 0 (zip xyxy (zip conf cls)))) [0..<length ?g])"
    by (simp only: cls_group_def)
  moreover have "map (\<lambda>c. cls_entry (?g ! c) (cls_rows c 0 (zip xyxy (zip conf cls)))) [0..<length ?g] =
     map (\<lambda>c. cls_entry ([], [], []) (cls_rows c 0 (zip xyxy (zip conf cls)))) [0..<nat (n_classes s)]"
    by (rule map_cong) auto
  ultimately show ?thesis by simp
qed

lemma cls_group_invalid:
  assumes "\<exists>z\<in>set (zip xyxy (zip conf cls)). \<not> class_ok (n_classes s) z"
  shows "cls_group s xyxy conf cls = Inl KeyError"
proof -
  let ?g = "replicate (nat (n_classes s)) (([], [], []) :: cls_boxes)"
  have "\<exists>z\<in>set (zip xyxy (zip conf cls)). \<not> (0 \<le> snd (snd z) \<and> nat (snd (snd z)) < length ?g)"
    using assms by (auto simp add: class_ok_def)
  from cls_group_loop_error[OF this, of 0] show ?thesis by (simp only: cls_group_def)
qed



subsection \<open>The loop over the classes\<close>

lemma uwt_cls2: "cls2tracked_tracks (fst (update_with_tensors env s t)) = cls2tracked_tracks s"
  by (simp add: update_with_tensors_def update_state_def Let_def)

lemma uwt_ncls: "n_classes (fst (update_with_tensors env s t)) = n_classes s"
  by (simp add: update_with_tensors_def update_state_def Let_def)

lemma write_id_fold_length: "length (foldl (write_id h tr) xs ms) = length xs"
  by (induction ms arbitrary: xs) (simp_all add: write_id_def)

lemma scu_cls2: "cls2tracked_tracks (fst (single_cls_update env s b c)) = cls2tracked_tracks s"
  by (simp add: single_cls_update_def Let_def uwt_cls2)

lemma scu_ncls: "n_classes (fst (single_cls_update env s b c)) = n_classes s"
  by (simp add: single_cls_update_def Let_def uwt_ncls)

lemma scu_length:
  "length b = length c \<Longrightarrow> length (snd (single_cls_update env s b c)) = length c"
  by (simp add: single_cls_update_def Let_def write_id_fold_length)

lemma cls_loop_ok:
  assumes "\<forall>c\<in>set cs. c < length (cls2tracked_tracks s) \<and>
             length (fst (g ! c)) = length (snd (snd (g ! c))) \<and>
             length (fst (snd (g ! c))) = length (snd (snd (g ! c)))"
  shows "\<exists>s' ids. cls_loop env cur g cs s ids0 ord0 =
            (s', Inr (ids0 @ ids, ord0 @ concat (map (\<lambda>c. snd (snd (g ! c))) cs))) \<and>
          length ids = length (concat (map (\<lambda>c. snd (snd (g ! c))) cs)) \<and>
          length (cls2tracked_tracks s') = length (cls2tracked_tracks s) \<and>
          n_classes s' = n_classes s"
  using assms
proof (induction cs arbitrary: s ids0 ord0)
  case Nil
  show ?case by simp
next
  case (Cons c cs)
  obtain bs cf os where e: "g ! c = (bs, cf, os)" by (cases "g ! c")
  have c: "c < length (cls2tracked_tracks s)" "length bs = length os" "length cf = length os"
    using Cons.prems e by auto
  show ?case
  proof (cases "length bs < 1")
    case True
    then have os: "os = []" using c by simp
    have rest: "\<forall>c\<in>set cs. c < length (cls2tracked_tracks s) \<and>
             length (fst (g ! c)) = length (snd (snd (g ! c))) \<and>
             length (fst (snd (g ! c))) = length (snd (snd (g ! c)))"
      using Cons.prems by simp
    from Cons.IH[OF rest, of ids0 ord0] show ?thesis using True e os by simp
  next
    case False
    let ?s1 = "s\<lparr>tracked_tracks := cls2tracked_tracks s ! c, frame_id := cur\<rparr>"
    let ?r = "single_cls_update env ?s1 bs cf"
    let ?s2 = "(fst ?r)\<lparr>cls2tracked_tracks := (cls2tracked_tracks (fst ?r))[c := tracked_tracks (fst ?r)]\<rparr>"
    have l2: "length (cls2tracked_tracks ?s2) = length (cls2tracked_tracks s)"
      by (simp add: scu_cls2)
    have n2: "n_classes ?s2 = n_classes s" by (simp add: scu_ncls)
    have lr: "length (snd ?r) = length os" using scu_length[of bs cf env ?s1] c by simp
    have rest: "\<forall>c\<in>set cs. c < length (cls2tracked_tracks ?s2) \<and>
             length (fst (g ! c)) = length (snd (snd (g ! c))) \<and>
             length (fst (snd (g ! c))) = length (snd (snd (g ! c)))"
      using Cons.prems l2 by simp
    from Cons.IH[OF rest, of "ids0 @ snd ?r" "ord0 @ os"]
    obtain s' ids where r: "cls_loop env cur g cs ?s2 (ids0 @ snd ?r) (ord0 @ os) =
            (s', Inr ((ids0 @ snd ?r) @ ids, (ord0 @ os) @ concat (map (\<lambda>c. snd (snd (g ! c))) cs)))"
        "length ids = length (concat (map (\<lambda>c. snd (snd (g ! c))) cs))"
        "length (cls2tracked_tracks s') = length (cls2tracked_tracks ?s2)"
        "n_classes s' = n_classes ?s2"
      by blast
    have step: "cls_loop env cur g (c # cs) s ids0 ord0 =
                cls_loop env cur g cs ?s2 (ids0 @ snd ?r) (ord0 @ os)"
    proof -
      have nb: "bs \<noteq> []" using False by auto
      show ?thesis using nb e c(1) by (simp add: Let_def)
    qed
    show ?thesis
      apply (rule exI[of _ s'])
      apply (rule exI[of _ "snd ?r @ ids"])
      using step r lr l2 n2 e by simp
  qed
qed


lemma update_run:
  assumes table: "length (cls2tracked_tracks s) = nat (n_classes s)"
      and valid: "\<forall>z\<in>set (zip xyxy (zip conf cls)). class_ok (n_classes s) z"
  shows "\<exists>s' ids.
      cls_loop env (frame_id s)
         (map (\<lambda>c. cls_entry ([], [], []) (cls_rows c 0 (zip xyxy (zip conf cls))))
            [0..<nat (n_classes s)])
         [0..<nat (n_classes s)] s [] [] =
        (s', Inr (ids, concat (map (\<lambda>c. map fst (cls_rows c 0 (zip xyxy (zip conf cls))))
                          [0..<nat (n_classes s)]))) \<and>
      length ids = length (concat (map (\<lambda>c. map fst (cls_rows c 0 (zip xyxy (zip conf cls))))
                          [0..<nat (n_classes s)])) \<and>
      update env s xyxy conf cls =
        (s'\<lparr>frame_id := frame_id s + 1\<rparr>,
         Inr (map (\<lambda>i. ids ! i)
               (argsort (concat (map (\<lambda>c. map fst (cls_rows c 0 (zip xyxy (zip conf cls))))
                          [0..<nat (n_classes s)])))))"
proof -
  let ?zs = "zip xyxy (zip conf cls)"
  let ?n = "nat (n_classes s)"
  let ?G = "map (\<lambda>c. cls_entry ([], [], []) (cls_rows c 0 ?zs)) [0..<?n]"
  let ?ORD = "concat (map (\<lambda>c. map fst (cls_rows c 0 ?zs)) [0..<?n])"
  have G: "\<And>c. c < ?n \<Longrightarrow> ?G ! c = (map (\<lambda>p. fst (snd p)) (cls_rows c 0 ?zs),
              map (\<lambda>p. fst (snd (snd p))) (cls_rows c 0 ?zs), map fst (cls_rows c 0 ?zs))"
    by (simp add: cls_entry_empty)
  have pre: "\<forall>c\<in>set [0..<?n]. c < length (cls2tracked_tracks s) \<and>
             length (fst (?G ! c)) = length (snd (snd (?G ! c))) \<and>
             length (fst (snd (?G ! c))) = length (snd (snd (?G ! c)))"
    using table G by simp
  have ord: "concat (map (\<lambda>c. snd (snd (?G ! c))) [0..<?n]) = ?ORD"
  proof -
    have "map (\<lambda>c. snd (snd (?G ! c))) [0..<?n] = map (\<lambda>c. map fst (cls_rows c 0 ?zs)) [0..<?n]"
    proof (rule map_cong)
      fix c assume "c \<in> set [0..<?n]"
      then have "c < ?n" by simp
      from G[OF this] show "snd (snd (?G ! c)) = map fst (cls_rows c 0 ?zs)" by simp
    qed simp
    then show ?thesis by (rule arg_cong)
  qed
  from cls_loop_ok[OF pre, of env "frame_id s" "[]" "[]"]
  obtain s' ids where r0:
     "cls_loop env (frame_id s) ?G [0..<?n] s [] [] =
        (s', Inr ([] @ ids, [] @ concat (map (\<lambda>c. snd (snd (?G ! c))) [0..<?n])))"
     "length ids = length (concat (map (\<lambda>c. snd (snd (?G ! c))) [0..<?n]))"
    by blast
  have r: "cls_loop env (frame_id s) ?G [0..<?n] s [] [] = (s', Inr (ids, ?ORD))"
     "length ids = length ?ORD"
    using r0 by (simp_all only: ord append_Nil)
  have g: "cls_group s xyxy conf cls = Inr ?G" by (rule cls_group_valid[OF valid])
  have "update env s xyxy conf cls =
        (s'\<lparr>frame_id := frame_id s + 1\<rparr>, Inr (map (\<lambda>i. ids ! i) (argsort ?ORD)))"
    unfolding update_def by (simp only: g r(1) sum.case prod.case)
  then show ?thesis using r by blast
qed

lemma zip3_nth:
  assumes "i < length xyxy" "i < length conf" "i < length cls"
  shows "(xyxy ! i, conf ! i, cls ! i) \<in> set (zip xyxy (zip conf cls))"
proof -
  have "i < length (zip xyxy (zip conf cls))" using assms by simp
  then have "zip xyxy (zip conf cls) ! i \<in> set (zip xyxy (zip conf cls))" by (rule nth_mem)
  then show ?thesis using assms by simp
qed

lemma zip3_set:
  assumes "z \<in> set (zip xyxy (zip conf cls))"
  shows "\<exists>i. i < length xyxy \<and> i < length conf \<and> i < length cls \<and> z = (xyxy ! i, conf ! i, cls ! i)"
proof -
  from assms obtain i where i: "i < length (zip xyxy (zip conf cls))" "z = zip xyxy (zip conf cls) ! i"
    by (metis in_set_conv_nth)
  then show ?thesis by (intro exI[of _ i]) simp
qed

lemma cls_loop_empty:
  assumes "\<forall>c\<in>set cs. fst (g ! c) = []"
  shows "cls_loop env cur g cs s ids ord = (s, Inr (ids, ord))"
  using assms
proof (induction cs)
  case Nil
  show ?case by simp
next
  case (Cons c cs)
  obtain bs cf os where e: "g ! c = (bs, cf, os)" by (cases "g ! c")
  then have "bs = []" using Cons.prems by simp
  then show ?case using Cons e by simp
qed

lemma argsort_Nil: "argsort [] = []"
  by (simp add: argsort_def)

lemma update_empty: "update env s [] [] [] = (s\<lparr>frame_id := frame_id s + 1\<rparr>, Inr [])"
proof -
  let ?g = "replicate (nat (n_classes s)) (([], [], []) :: cls_boxes)"
  have g: "cls_group s [] [] [] = Inr ?g" by (simp add: cls_group_def)
  have "\<forall>c\<in>set [0..<nat (n_classes s)]. fst (?g ! c) = []" by simp
  then have "cls_loop env (frame_id s) ?g [0..<nat (n_classes s)] s [] [] = (s, Inr ([], []))"
    by (rule cls_loop_empty)
  then show ?thesis by (simp add: update_def g argsort_Nil)
qed


text \<open>C5, as the code has it: when one of the rows that \<open>zip\<close> forms from the three
  arrays (the first \<open>min\<close> of the three lengths) has a class id outside
  \<open>[0, n_classes)\<close>, the call raises KeyError and the tracker is exactly what it was
  before the call. Arrays of unequal length are not refused.\<close>

theorem update_invalid_class_atomic:
  assumes "i < length xyxy" and "i < length conf" and "i < length cls"
      and "cls ! i < 0 \<or> n_classes s \<le> cls ! i"
  shows "update env s xyxy conf cls = (s, Inl KeyError)"
proof -
  have "(xyxy ! i, conf ! i, cls ! i) \<in> set (zip xyxy (zip conf cls))"
    using assms(1-3) by (rule zip3_nth)
  moreover have "\<not> class_ok (n_classes s) (xyxy ! i, conf ! i, cls ! i)"
    using assms(4) by (auto simp add: class_ok_def)
  ultimately have "\<exists>z\<in>set (zip xyxy (zip conf cls)). \<not> class_ok (n_classes s) z" by blast
  then have "cls_group s xyxy conf cls = Inl KeyError" by (rule cls_group_invalid)
  then show ?thesis by (simp add: update_def)
qed


text \<open>The theorem on a tracker for one class, at a detection of class 5.\<close>

theorem update_invalid_class_atomic_witness:
  "update static_deps (projr (BYTETrack_init 1 (1/4) 30 (4/5) 30 1))
     [(0, 0, 10, 10)] [9/10] [5] =
   (projr (BYTETrack_init 1 (1/4) 30 (4/5) 30 1), Inl KeyError)"
  using update_invalid_class_atomic[of 0 "[(0, 0, 10, 10)]" "[9/10]" "[5]"
          "projr (BYTETrack_init 1 (1/4) 30 (4/5) 30 1)" static_deps]
  by (simp add: BYTETrack_init_def IdCounter_init_def NO_ID_def)

text \<open>C5 as stated fails: a call with one box, no confidence and no class id does not
  raise; it returns the empty array.\<close>

theorem update_unequal_lengths_accepted:
  "update static_deps (projr (BYTETrack_init 1 (1/4) 30 (4/5) 30 1)) [(0, 0, 10, 10)] [] [] =
   ((projr (BYTETrack_init 1 (1/4) 30 (4/5) 30 1))\<lparr>frame_id := 1\<rparr>, Inr [])"
  by (simp add: update_def cls_group_def argsort_def BYTETrack_init_def IdCounter_init_def NO_ID_def)

text \<open>C4: a call whose class ids are all keys, on a tracker whose per-class table has
  its \<open>n_classes\<close> entries, returns an array and leaves the frame counter one higher,
  however many classes have detections; every call that returns an array leaves the
  frame counter one higher; and a call without detections returns the empty array and
  changes nothing but the frame counter.\<close>

theorem update_frame_counter:
  "(length (cls2tracked_tracks s) = nat (n_classes s) \<and>
    (\<forall>i. i < length xyxy \<and> i < length conf \<and> i < length cls \<longrightarrow>
         0 \<le> cls ! i \<and> cls ! i < n_classes s) \<longrightarrow>
      (\<exists>out. snd (update env s xyxy conf cls) = Inr out) \<and>
      frame_id (fst (update env s xyxy conf cls)) = frame_id s + 1) \<and>
   (\<forall>out. snd (update env s xyxy conf cls) = Inr out \<longrightarrow>
      frame_id (fst (update env s xyxy conf cls)) = frame_id s + 1) \<and>
   update env s [] [] [] = (s\<lparr>frame_id := frame_id s + 1\<rparr>, Inr [])"
proof (intro conjI impI allI)
  assume a: "length (cls2tracked_tracks s) = nat (n_classes s) \<and>
    (\<forall>i. i < length xyxy \<and> i < length conf \<and> i < length cls \<longrightarrow>
         0 \<le> cls ! i \<and> cls ! i < n_classes s)"
  have valid: "\<forall>z\<in>set (zip xyxy (zip conf cls)). class_ok (n_classes s) z"
  proof
    fix z assume "z \<in> set (zip xyxy (zip conf cls))"
    from zip3_set[OF this] obtain i where
      "i < length xyxy" "i < length conf" "i < length cls" "z = (xyxy ! i, conf ! i, cls ! i)"
      by blast
    then show "class_ok (n_classes s) z" using a by (simp add: class_ok_def)
  qed
  from a have table: "length (cls2tracked_tracks s) = nat (n_classes s)" by simp
  from update_run[OF table valid, of env] obtain s' out where
    u: "update env s xyxy conf cls = (s'\<lparr>frame_id := frame_id s + 1\<rparr>, Inr out)"
    by blast
  show "\<exists>out. snd (update env s xyxy conf cls) = Inr out" using u by simp
  show "frame_id (fst (update env s xyxy conf cls)) = frame_id s + 1" using u by simp
next
  fix out assume "snd (update env s xyxy conf cls) = Inr out"
  then show "frame_id (fst (update env s xyxy conf cls)) = frame_id s + 1"
    by (auto simp add: update_def split: sum.splits prod.splits)
next
  show "update env s [] [] [] = (s\<lparr>frame_id := frame_id s + 1\<rparr>, Inr [])"
    by (rule update_empty)
qed

text \<open>The theorem on a tracker for one class, at one detection of class 0.\<close>

theorem update_frame_counter_witness:
  "(\<exists>out. snd (update static_deps (projr (BYTETrack_init 1 (1/4) 30 (4/5) 30 1))
               [(0, 0, 10, 10)] [9/10] [0]) = Inr out) \<and>
   frame_id (fst (update static_deps (projr (BYTETrack_init 1 (1/4) 30 (4/5) 30 1))
               [(0, 0, 10, 10)] [9/10] [0])) = 1"
  using update_frame_counter[of "projr (BYTETrack_init 1 (1/4) 30 (4/5) 30 1)"
          "[(0, 0, 10, 10)]" "[9/10]" "[0]" static_deps]
  by (simp add: BYTETrack_init_def IdCounter_init_def NO_ID_def)

subsection \<open>The expiry of lost tracks\<close>

text \<open>The rounding of one operation: the double nearest to \<open>x\<close> differs from \<open>x\<close> by at
  most \<open>|x| / 2^53\<close>.\<close>

lemma bit_length_lower: "0 < n \<Longrightarrow> 2 ^ (bit_length n - 1) \<le> n"
proof (induction n rule: bit_length.induct)
  case (1 n)
  show ?case
  proof (cases "n div 2 \<le> 0")
    case True
    then have "n = 1" using 1(2) by linarith
    then show ?thesis by (simp add: bit_length.simps)
  next
    case False
    then have ih: "2 ^ (bit_length (n div 2) - 1) \<le> n div 2" using 1 by simp
    have pos: "0 < bit_length (n div 2)" using False by (subst bit_length.simps) simp
    have "bit_length n = Suc (bit_length (n div 2))" using 1(2) by (subst bit_length.simps) simp
    then have "(2::int) ^ (bit_length n - 1) = 2 * 2 ^ (bit_length (n div 2) - 1)"
      using pos by (cases "bit_length (n div 2)") simp_all
    also have "\<dots> \<le> 2 * (n div 2)" using ih by simp
    also have "\<dots> \<le> n" by simp
    finally show ?thesis .
  qed
qed

lemma bit_length_upper: "n < 2 ^ bit_length n"
proof (induction n rule: bit_length.induct)
  case (1 n)
  show ?case
  proof (cases "n \<le> 0")
    case True
    have "(0::int) < 2 ^ bit_length n" by simp
    then show ?thesis using True by linarith
  next
    case False
    then have ih: "n div 2 < 2 ^ bit_length (n div 2)" using 1 by simp
    have e: "bit_length n = Suc (bit_length (n div 2))" using False by (subst bit_length.simps) simp
    have "n < 2 * (n div 2 + 1)" by presburger
    also have "\<dots> \<le> 2 * 2 ^ bit_length (n div 2)" using ih by simp
    finally show ?thesis using e by simp
  qed
qed

lemma round_half_even_err: "\<bar>real_of_int (round_half_even y) - y\<bar> \<le> 1 / 2"
  unfolding round_half_even_def Let_def by (auto split: if_splits)

lemma float_exponent_le:
  assumes "x \<noteq> 0"
  shows "2 powi (float_exponent x) \<le> \<bar>x\<bar>"
proof (cases "\<bar>x\<bar> \<ge> 1")
  case True
  let ?n = "\<lfloor>\<bar>x\<bar>\<rfloor>"
  have n: "0 < ?n" using True by simp
  have e: "float_exponent x = int (bit_length ?n - 1)"
  proof -
    have "0 < bit_length ?n" using n by (subst bit_length.simps) simp
    then show ?thesis using True by (simp add: float_exponent_def)
  qed
  have "(2::real) powi (float_exponent x) = 2 ^ (bit_length ?n - 1)"
    unfolding e by (simp add: power_int_def)
  also have "\<dots> = real_of_int (2 ^ (bit_length ?n - 1))" by simp
  also have "\<dots> \<le> real_of_int ?n"
    using bit_length_lower[OF n] by (simp only: of_int_le_iff)
  also have "\<dots> \<le> \<bar>x\<bar>" by simp
  finally show ?thesis .
next
  case False
  let ?m = "\<lceil>1 / \<bar>x\<bar>\<rceil> - 1"
  have xp: "0 < \<bar>x\<bar>" using assms by simp
  have e: "float_exponent x = - int (bit_length ?m)" using False by (simp add: float_exponent_def)
  have "1 / \<bar>x\<bar> \<le> real_of_int \<lceil>1 / \<bar>x\<bar>\<rceil>" by simp
  also have "\<dots> = real_of_int (?m + 1)" by simp
  also have "\<dots> \<le> real_of_int (2 ^ bit_length ?m)"
  proof -
    have "?m + 1 \<le> 2 ^ bit_length ?m" using bit_length_upper[of ?m] by linarith
    then show ?thesis by (simp only: of_int_le_iff)
  qed
  also have "\<dots> = 2 ^ bit_length ?m" by simp
  finally have "1 / \<bar>x\<bar> \<le> 2 ^ bit_length ?m" .
  then have "1 / 2 ^ bit_length ?m \<le> \<bar>x\<bar>"
    using xp by (simp add: field_simps)
  moreover have "(2::real) powi (float_exponent x) = 1 / 2 ^ bit_length ?m"
    unfolding e by (simp add: power_int_def field_simps)
  ultimately show ?thesis by simp
qed

lemma double_round_err:
  "\<bar>double_round x - x\<bar> \<le> \<bar>x\<bar> / 2 ^ 53"
proof (cases "x = 0")
  case True
  then show ?thesis by (simp add: double_round_def)
next
  case False
  define q :: real where "q = 2 powi (float_exponent x - 52)"
  have qp: "0 < q" by (simp add: q_def)
  have q2: "q = 2 powi (float_exponent x) / 2 ^ 52"
    by (simp add: q_def power_int_diff)
  have d: "double_round x = of_int (round_half_even (x / q)) * q"
    using False by (simp add: double_round_def q_def Let_def)
  have "double_round x - x = (of_int (round_half_even (x / q)) - x / q) * q"
    using qp by (simp add: d field_simps)
  then have "\<bar>double_round x - x\<bar> = \<bar>of_int (round_half_even (x / q)) - x / q\<bar> * q"
    using qp by (simp add: abs_mult)
  also have "\<dots> \<le> 1 / 2 * q"
    using round_half_even_err[of "x / q"] qp by (intro mult_right_mono) simp_all
  also have "\<dots> = 2 powi (float_exponent x) / 2 ^ 53" by (simp add: q2)
  also have "\<dots> \<le> \<bar>x\<bar> / 2 ^ 53"
    using float_exponent_le[OF False] by (simp add: divide_right_mono)
  finally show ?thesis .
qed

lemma double_round_bounds:
  assumes "0 \<le> x"
  shows "x * (1 - 1 / 2 ^ 53) \<le> double_round x \<and> double_round x \<le> x * (1 + 1 / 2 ^ 53)"
proof -
  define u where "u = x / 2 ^ 53"
  have "\<bar>double_round x - x\<bar> \<le> u" using double_round_err[of x] assms by (simp add: u_def)
  moreover have "x * (1 - 1 / 2 ^ 53) = x - u" by (simp add: u_def algebra_simps)
  moreover have "x * (1 + 1 / 2 ^ 53) = x + u" by (simp add: u_def algebra_simps)
  ultimately show ?thesis by (simp only: abs_le_iff) linarith
qed

lemma double_pow4:
  "1 - 1 / 2 ^ 51 \<le> (1 - 1 / 2 ^ 53 :: real) ^ 4 \<and> (1 + 1 / 2 ^ 53 :: real) ^ 4 \<le> 1 + 5 / 2 ^ 53"
  by (simp add: power4_eq_xxxx)

text \<open>The four roundings of line 49 (two conversions, the division, the product) move
  the float away from the exact quotient \<open>F * L / 30\<close> by less than \<open>1 / 30\<close> when
  \<open>F * L < 2^50\<close>.\<close>

lemma window_near:
  assumes L: "0 \<le> L" and F: "0 \<le> F" and B: "F * L < 2 ^ 50"
  shows "\<exists>d :: real.
           py_int (float_mul (float_truediv (float_of_int F) 30) (float_of_int L)) = \<lfloor>d\<rfloor> \<and>
           real_of_int (F * L) / 30 - 1 / 60 \<le> d \<and> d \<le> real_of_int (F * L) / 30 + 1 / 48"
proof -
  define lo :: real where "lo = 1 - 1 / 2 ^ 53"
  define hi :: real where "hi = 1 + 1 / 2 ^ 53"
  define f :: real where "f = real_of_int F"
  define k :: real where "k = real_of_int L"
  define a where "a = float_of_int F"
  define b where "b = float_truediv a 30"
  define c where "c = float_of_int L"
  define d where "d = float_mul b c"
  have lo0: "0 \<le> lo" and hi0: "0 \<le> hi" by (simp_all add: lo_def hi_def)
  have f0: "0 \<le> f" and k0: "0 \<le> k" using F L by (simp_all add: f_def k_def)
  have a: "f * lo \<le> a \<and> a \<le> f * hi"
    using double_round_bounds[of f] f0 by (simp add: a_def float_of_int_def lo_def hi_def f_def)
  have a0: "0 \<le> a" using a f0 lo0 by (meson mult_nonneg_nonneg order_trans)
  have b: "a / 30 * lo \<le> b \<and> b \<le> a / 30 * hi"
    using double_round_bounds[of "a / 30"] a0 by (simp add: b_def float_truediv_def lo_def hi_def)
  have b0: "0 \<le> b"
  proof -
    have "0 \<le> a / 30 * lo" using a0 lo0 by simp
    then show ?thesis using b by linarith
  qed
  have c: "k * lo \<le> c \<and> c \<le> k * hi"
    using double_round_bounds[of k] k0 by (simp add: c_def float_of_int_def lo_def hi_def k_def)
  have c0: "0 \<le> c" using c k0 lo0 by (meson mult_nonneg_nonneg order_trans)
  have d: "b * c * lo \<le> d \<and> d \<le> b * c * hi"
    using double_round_bounds[of "b * c"] b0 c0 by (simp add: d_def float_mul_def lo_def hi_def)
  have bl: "f * lo / 30 * lo \<le> b"
  proof -
    have "f * lo / 30 * lo \<le> a / 30 * lo"
      using a lo0 by (intro mult_right_mono divide_right_mono) simp_all
    then show ?thesis using b by linarith
  qed
  have bu: "b \<le> f * hi / 30 * hi"
  proof -
    have "a / 30 * hi \<le> f * hi / 30 * hi"
      using a hi0 by (intro mult_right_mono divide_right_mono) simp_all
    then show ?thesis using b by linarith
  qed
  have bl0: "0 \<le> f * lo / 30 * lo" using f0 lo0 by simp
  have kl0: "0 \<le> k * lo" using k0 lo0 by simp
  have dl: "(f * lo / 30 * lo) * (k * lo) * lo \<le> d"
  proof -
    have "(f * lo / 30 * lo) * (k * lo) \<le> b * c"
      using bl c bl0 kl0 b0 by (intro mult_mono) simp_all
    then have "(f * lo / 30 * lo) * (k * lo) * lo \<le> b * c * lo"
      using lo0 by (rule mult_right_mono)
    then show ?thesis using d by linarith
  qed
  have du: "d \<le> (f * hi / 30 * hi) * (k * hi) * hi"
  proof -
    have "b * c \<le> (f * hi / 30 * hi) * (k * hi)"
      using bu c b0 c0 k0 hi0 by (intro mult_mono) simp_all
    then have "b * c * hi \<le> (f * hi / 30 * hi) * (k * hi) * hi"
      using hi0 by (rule mult_right_mono)
    then show ?thesis using d by linarith
  qed
  define v where "v = f * k / 30"
  have v0: "0 \<le> v" using f0 k0 by (simp add: v_def)
  have vb: "v \<le> 2 ^ 50 / 30"
  proof -
    have "real_of_int (F * L) \<le> real_of_int (2 ^ 50)" using B by (simp only: of_int_le_iff)
    then show ?thesis by (simp add: v_def f_def k_def)
  qed
  have el: "(f * lo / 30 * lo) * (k * lo) * lo = v * lo ^ 4"
    by (simp add: v_def power4_eq_xxxx)
  have eu: "(f * hi / 30 * hi) * (k * hi) * hi = v * hi ^ 4"
    by (simp add: v_def power4_eq_xxxx)
  have p: "1 - 1 / 2 ^ 51 \<le> lo ^ 4 \<and> hi ^ 4 \<le> 1 + 5 / 2 ^ 53"
    unfolding lo_def hi_def by (rule double_pow4)
  have "v * (1 - 1 / 2 ^ 51) \<le> v * lo ^ 4" using p v0 by (intro mult_left_mono) simp_all
  then have l1: "v - v / 2 ^ 51 \<le> d" using dl el by (simp add: algebra_simps)
  have "v * hi ^ 4 \<le> v * (1 + 5 / 2 ^ 53)" using p v0 by (intro mult_left_mono) simp_all
  then have u1: "d \<le> v + v * 5 / 2 ^ 53" using du eu by (simp add: algebra_simps)
  have "v / 2 ^ 51 \<le> (2 ^ 50 / 30) / 2 ^ 51" using vb by (rule divide_right_mono) simp
  then have l2: "v / 2 ^ 51 \<le> 1 / 60" by simp
  have "v * 5 / 2 ^ 53 \<le> (2 ^ 50 / 30) * 5 / 2 ^ 53"
    using vb by (intro divide_right_mono mult_right_mono) simp_all
  then have u2: "v * 5 / 2 ^ 53 \<le> 1 / 48" by simp
  have d0: "0 \<le> d"
  proof -
    have "0 \<le> b * c * lo" using b0 c0 lo0 by simp
    then show ?thesis using d by linarith
  qed
  have w: "py_int (float_mul (float_truediv (float_of_int F) 30) (float_of_int L)) = \<lfloor>d\<rfloor>"
    using d0 by (simp add: py_int_def d_def b_def a_def c_def)
  have vv: "v = real_of_int (F * L) / 30" by (simp add: v_def f_def k_def)
  show ?thesis using w l1 l2 u1 u2 unfolding vv[symmetric] by (intro exI[of _ d]) linarith
qed

lemma window_bounds:
  assumes L: "0 \<le> L" and F: "0 \<le> F" and B: "F * L < 2 ^ 50"
  shows "(F * L) div 30 - 1 \<le> py_int (float_mul (float_truediv (float_of_int F) 30) (float_of_int L)) \<and>
         py_int (float_mul (float_truediv (float_of_int F) 30) (float_of_int L)) \<le> (F * L) div 30 \<and>
         (\<not> 30 dvd F * L \<longrightarrow>
            py_int (float_mul (float_truediv (float_of_int F) 30) (float_of_int L)) = (F * L) div 30)"
proof -
  obtain d :: real
    where w: "py_int (float_mul (float_truediv (float_of_int F) 30) (float_of_int L)) = \<lfloor>d\<rfloor>"
    and l: "real_of_int (F * L) / 30 - 1 / 60 \<le> d" and u: "d \<le> real_of_int (F * L) / 30 + 1 / 48"
    using window_near[OF assms] by blast
  define n where "n = (F * L) div 30"
  define r where "r = (F * L) mod 30"
  have r: "0 \<le> r \<and> r \<le> 29" by (simp add: r_def)
  have "F * L = 30 * n + r" by (simp add: n_def r_def)
  then have "real_of_int (F * L) = 30 * real_of_int n + real_of_int r"
    by (metis of_int_add of_int_mult of_int_numeral)
  then have v: "real_of_int (F * L) / 30 = real_of_int n + real_of_int r / 30" by simp
  have r0: "0 \<le> real_of_int r" and r29: "real_of_int r \<le> 29" using r by simp_all
  have l': "real_of_int n + real_of_int r / 30 - 1 / 60 \<le> d" using l unfolding v .
  have u': "d \<le> real_of_int n + real_of_int r / 30 + 1 / 48" using u unfolding v .
  have "real_of_int n - 1 \<le> d" using l' r0 by linarith
  then have "real_of_int (n - 1) \<le> d" by simp
  then have g1: "n - 1 \<le> \<lfloor>d\<rfloor>" by (simp only: le_floor_iff)
  have "d < real_of_int n + 1" using u' r29 by linarith
  then have "d < real_of_int (n + 1)" by simp
  then have "\<lfloor>d\<rfloor> < n + 1" by (simp only: floor_less_iff)
  then have g2: "\<lfloor>d\<rfloor> \<le> n" by simp
  have g3: "\<lfloor>d\<rfloor> = n" if nd: "\<not> 30 dvd F * L"
  proof -
    have "r \<noteq> 0" using nd by (simp add: r_def dvd_eq_mod_eq_0)
    then have "1 \<le> r" using r by simp
    then have "1 \<le> real_of_int r" by simp
    then have "real_of_int n \<le> d" using l' by linarith
    then have "n \<le> \<lfloor>d\<rfloor>" by (simp only: le_floor_iff)
    then show ?thesis using g2 by simp
  qed
  show ?thesis using g1 g2 g3 unfolding w n_def by blast
qed

text \<open>The loop of lines 336 to 339 changes no frame and no state but that of the
  tracks of the list that are beyond the window.\<close>

lemma expire_step_store:
  "length (store (expire_step fid mtl l b)) = length (store l) \<and>
   (\<forall>a < length (store l).
      track_frame_id (store (expire_step fid mtl l b) ! a) = track_frame_id (store l ! a) \<and>
      state (store (expire_step fid mtl l b) ! a) =
        (if a = b \<and> fid - track_frame_id (store l ! a) > mtl then Removed
         else state (store l ! a)))"
  by (auto simp add: expire_step_def nth_list_update)

lemma expire_fold:
  "length (store (foldl (expire_step fid mtl) l ls)) = length (store l) \<and>
   (\<forall>a < length (store l).
      track_frame_id (store (foldl (expire_step fid mtl) l ls) ! a) = track_frame_id (store l ! a) \<and>
      state (store (foldl (expire_step fid mtl) l ls) ! a) =
        (if a \<in> set ls \<and> fid - track_frame_id (store l ! a) > mtl then Removed
         else state (store l ! a)))"
proof (induction ls arbitrary: l)
  case Nil
  then show ?case by simp
next
  case (Cons b ls)
  let ?l1 = "expire_step fid mtl l b"
  note s = expire_step_store[of fid mtl l b]
  note ih = Cons.IH[of ?l1]
  show ?case
  proof (intro conjI allI impI)
    show "length (store (foldl (expire_step fid mtl) l (b # ls))) = length (store l)"
      using s ih by simp
  next
    fix a assume a: "a < length (store l)"
    then have a1: "a < length (store ?l1)" using s by simp
    show "track_frame_id (store (foldl (expire_step fid mtl) l (b # ls)) ! a) =
            track_frame_id (store l ! a)"
      using s ih a a1 by simp
    show "state (store (foldl (expire_step fid mtl) l (b # ls)) ! a) =
        (if a \<in> set (b # ls) \<and> fid - track_frame_id (store l ! a) > mtl then Removed
         else state (store l ! a))"
      using s ih a a1 by auto
  qed
qed

lemma update_state_fields:
  "frame_id (fst (update_state env s l)) = frame_id s + 1 \<and>
   max_time_lost (fst (update_state env s l)) = max_time_lost s \<and>
   heap (fst (update_state env s l)) = store l"
  by (simp add: update_state_def Let_def)

text \<open>C6, as the code has it. For a buffer \<open>L\<close> and a frame rate \<open>F\<close> that are not
  negative, with \<open>F * L < 2^50\<close>, \<open>max_time_lost\<close> is \<open>int(F / 30.0 * L)\<close>: the integer
  quotient of \<open>F * L\<close> by 30 (the product truncated, not rounded), or one less than it,
  which the rounding of the doubles allows only when 30 divides \<open>F * L\<close>. Tracks expire
  in \<open>update_with_tensors\<close> only, after the associations and the start of new tracks
  (\<open>l\<close> holds the local variables at that point): the call leaves the frame counter
  one higher and the window as it is, changes the frame of no track from then on, and
  at its end a track is Removed exactly when it was Removed at that point already, or
  it belongs to \<open>lost_tracks\<close> as the call found it and the current frame minus its
  frame is greater than \<open>max_time_lost\<close>; every other track keeps the state it had at
  that point. A call of \<open>update\<close> without detections expires nothing: it changes the
  frame counter only.\<close>

theorem lost_expiry_window:
  fixes s s' :: "'k BYTETrack" and l :: "'k locals"
  assumes "0 \<le> L" and "0 \<le> F" and "F * L < 2 ^ 50"
      and "l = init_new_stracks env s
                 (unconfirmed_association env s
                    (second_association env s tensors
                       (first_association env s (uwt_begin env s tensors))))"
      and "s' = fst (update_with_tensors env s tensors)"
  shows "(F * L) div 30 - 1 \<le>
           max_time_lost (projr (BYTETrack_init n tat L mmt F mcf :: error + 'k BYTETrack)) \<and>
         max_time_lost (projr (BYTETrack_init n tat L mmt F mcf :: error + 'k BYTETrack)) \<le>
           (F * L) div 30 \<and>
         (\<not> 30 dvd F * L \<longrightarrow>
            max_time_lost (projr (BYTETrack_init n tat L mmt F mcf :: error + 'k BYTETrack)) =
              (F * L) div 30) \<and>
         frame_id s' = frame_id s + 1 \<and> max_time_lost s' = max_time_lost s \<and>
         length (heap s') = length (store l) \<and>
         (\<forall>a < length (heap s').
            track_frame_id (heap s' ! a) = track_frame_id (store l ! a) \<and>
            state (heap s' ! a) =
              (if a \<in> set (lost_tracks s) \<and>
                  frame_id s' - track_frame_id (heap s' ! a) > max_time_lost s'
               then Removed else state (store l ! a))) \<and>
         fst (update env s [] [] []) = s\<lparr>frame_id := frame_id s + 1\<rparr>"
proof -
  have m: "max_time_lost (projr (BYTETrack_init n tat L mmt F mcf :: error + 'k BYTETrack)) =
             py_int (float_mul (float_truediv (float_of_int F) 30) (float_of_int L))"
    by (simp add: BYTETrack_init_def IdCounter_init_def NO_ID_def)
  note w = window_bounds[OF assms(1) assms(2) assms(3)]
  have u: "update_with_tensors env s tensors = update_state env s (expire_lost s l)"
    by (simp only: update_with_tensors_def assms(4))
  note f = update_state_fields[of env s "expire_lost s l"]
  note e = expire_fold[of "frame_id s + 1" "max_time_lost s" l "lost_tracks s"]
  have h: "heap s' = store (expire_lost s l)" using f by (simp only: assms(5) u)
  have fr: "frame_id s' = frame_id s + 1" using f by (simp only: assms(5) u)
  have mt: "max_time_lost s' = max_time_lost s" using f by (simp only: assms(5) u)
  have len: "length (heap s') = length (store l)" using e by (simp only: h expire_lost_def)
  have tr: "\<forall>a < length (heap s').
            track_frame_id (heap s' ! a) = track_frame_id (store l ! a) \<and>
            state (heap s' ! a) =
              (if a \<in> set (lost_tracks s) \<and>
                  frame_id s' - track_frame_id (heap s' ! a) > max_time_lost s'
               then Removed else state (store l ! a))"
  proof (intro allI impI)
    fix a assume "a < length (heap s')"
    then have a: "a < length (store l)" by (simp only: len)
    have t: "track_frame_id (heap s' ! a) = track_frame_id (store l ! a)"
      using e a by (simp only: h expire_lost_def)
    have "state (heap s' ! a) =
            (if a \<in> set (lost_tracks s) \<and>
                frame_id s + 1 - track_frame_id (store l ! a) > max_time_lost s
             then Removed else state (store l ! a))"
      using e a by (simp only: h expire_lost_def)
    then show "track_frame_id (heap s' ! a) = track_frame_id (store l ! a) \<and>
            state (heap s' ! a) =
              (if a \<in> set (lost_tracks s) \<and>
                  frame_id s' - track_frame_id (heap s' ! a) > max_time_lost s'
               then Removed else state (store l ! a))"
      by (simp only: t fr mt simp_thms)
  qed
  have em: "fst (update env s [] [] []) = s\<lparr>frame_id := frame_id s + 1\<rparr>"
    by (simp only: update_empty fst_conv)
  show ?thesis using w tr fr mt len em unfolding m by blast
qed

text \<open>The tracker at the end of the run above.\<close>

lemma lost_run_value:
  "lost_run =
     \<lparr>track_activation_threshold = 1 / 4, minimum_matching_threshold = 4 / 5,
      frame_id = 42, det_thresh = 7 / 20, max_time_lost = 30,
      minimum_consecutive_frames = 1, tracked_tracks = [1], lost_tracks = [0],
      removed_tracks = [],
      internal_id_counter = \<lparr>start_id = 0, counter_id = 2\<rparr>,
      external_id_counter = \<lparr>start_id = 1, counter_id = 3\<rparr>, n_classes = 1,
      cls2tracked_tracks = [[1]],
      heap =
        [\<lparr>tlwh_raw = (0, 0, 10, 10), score = 9 / 10,
          mean = Some (0, 0, 10, 10), state = Lost, is_activated = True,
          track_frame_id = 1, start_frame = 1, tracklet_len = 0,
          required_frames = 1, internal_track_id = 0, external_track_id = 1\<rparr>,
         \<lparr>tlwh_raw = (100, 100, 10, 10), score = 9 / 10,
          mean = Some (100, 100, 10, 10), state = Tracked, is_activated = True,
          track_frame_id = 2, start_frame = 2, tracklet_len = 0,
          required_frames = 1, internal_track_id = 1, external_track_id = 2\<rparr>]\<rparr>"
  by code_simp

text \<open>The theorem at the buffer 50 and the frame rate 25 (30 does not divide 1250,
  and the window is 41), and at the call that processes frame 43 of the run above with
  a detection away from the lost track: the track, last seen at frame 1, is Removed.\<close>

theorem lost_expiry_window_witness:
  "(0::int) \<le> 50 \<and> (0::int) \<le> 25 \<and> (25::int) * 50 < 2 ^ 50 \<and>
   max_time_lost (projr (BYTETrack_init 1 (1/4) 50 (4/5) 25 1 :: error + box BYTETrack)) = 41 \<and>
   lost_tracks lost_run = [0] \<and> max_time_lost lost_run = 30 \<and>
   frame_id (fst (update_with_tensors static_deps lost_run [((100, 100, 110, 110), 9/10)])) = 43 \<and>
   track_frame_id
     (heap (fst (update_with_tensors static_deps lost_run [((100, 100, 110, 110), 9/10)])) ! 0) = 1 \<and>
   state
     (heap (fst (update_with_tensors static_deps lost_run [((100, 100, 110, 110), 9/10)])) ! 0) =
     Removed"
proof -
  let ?t = "[((100, 100, 110, 110), 9/10)] :: (box \<times> real) list"
  let ?l = "init_new_stracks static_deps lost_run
              (unconfirmed_association static_deps lost_run
                 (second_association static_deps lost_run ?t
                    (first_association static_deps lost_run (uwt_begin static_deps lost_run ?t))))"
  let ?s' = "fst (update_with_tensors static_deps lost_run ?t)"
  have c: "lost_tracks lost_run = [0] \<and> max_time_lost lost_run = 30 \<and> frame_id lost_run = 42 \<and>
           length (store ?l) = 2 \<and> track_frame_id (store ?l ! 0) = 1"
    unfolding lost_run_value by code_simp
  have d: "\<not> (30::int) dvd 25 * 50" by simp
  note t = lost_expiry_window[where L=50 and F=25 and n=1 and tat="1/4" and mmt="4/5" and mcf=1
      and env=static_deps and s=lost_run and tensors="?t" and l="?l" and s'="?s'", OF _ _ _ refl refl]
  have t': "max_time_lost (projr (BYTETrack_init 1 (1/4) 50 (4/5) 25 1 :: error + box BYTETrack)) =
              (25 * 50) div 30 \<and>
            frame_id ?s' = frame_id lost_run + 1 \<and> max_time_lost ?s' = max_time_lost lost_run \<and>
            length (heap ?s') = length (store ?l) \<and>
            (\<forall>a < length (heap ?s').
               track_frame_id (heap ?s' ! a) = track_frame_id (store ?l ! a) \<and>
               state (heap ?s' ! a) =
                 (if a \<in> set (lost_tracks lost_run) \<and>
                     frame_id ?s' - track_frame_id (heap ?s' ! a) > max_time_lost ?s'
                  then Removed else state (store ?l ! a)))"
    using t d by simp
  have z: "(0::nat) < length (heap ?s')" using t' c by simp
  have "track_frame_id (heap ?s' ! 0) = 1 \<and> state (heap ?s' ! 0) = Removed \<and> frame_id ?s' = 43"
    using t' c z by simp
  then show ?thesis using t' c by simp
qed

text \<open>C6 as stated fails. With the buffer 1 at 20 frames per second the window is 0,
  while \<open>1 * 20 / 30\<close> rounds to 1; with the buffer 150 at 11 frames per second it is
  54, while the quotient is 55; with the buffer 30 at \<open>2^54 + 2\<close> frames per second it
  is two less than the quotient. In the run above the track last seen at frame 1 is
  still Lost at frame 42, beyond the window of 30 frames, because the frames without
  detections expire nothing. From there, a detection at its place re-activates it at
  frame 43 under its identity 1; and when instead the detection of frame 43 is
  elsewhere, the track is Removed but stays in \<open>lost_tracks\<close>, and a detection at its
  place at frame 44 makes it Tracked again.\<close>

theorem lost_expiry_not_as_stated:
  "max_time_lost (projr (BYTETrack_init 1 (1/4) 1 (4/5) 20 1 :: error + unit BYTETrack)) = 0 \<and>
   py_round (real_of_int 1 * real_of_int 20 / 30) = 1 \<and>
   max_time_lost (projr (BYTETrack_init 1 (1/4) 150 (4/5) 11 1 :: error + unit BYTETrack)) = 54 \<and>
   (150 * 11) div 30 = (55 :: int) \<and>
   max_time_lost (projr (BYTETrack_init 1 (1/4) 30 (4/5) 18014398509481986 1
                    :: error + unit BYTETrack)) = 18014398509481984 \<and>
   max_time_lost lost_run = 30 \<and> frame_id lost_run = 42 \<and> lost_tracks lost_run = [0] \<and>
   state (heap lost_run ! 0) = Lost \<and> track_frame_id (heap lost_run ! 0) = 1 \<and>
   (let ra = update static_deps lost_run [(0, 0, 10, 10)] [9/10] [0]
    in snd ra = Inr [1] \<and> frame_id (fst ra) = 43 \<and> state (heap (fst ra) ! 0) = Tracked) \<and>
   (let rb = update static_deps lost_run [(100, 100, 110, 110)] [9/10] [0];
        rc = update static_deps (fst rb) [(0, 0, 10, 10)] [9/10] [0]
    in state (heap (fst rb) ! 0) = Removed \<and> lost_tracks (fst rb) = [0] \<and>
       snd rc = Inr [1] \<and> frame_id (fst rc) = 44 \<and> state (heap (fst rc) ! 0) = Tracked)"
  unfolding lost_run_value by code_simp

subsection \<open>The order of the output\<close>





subsection \<open>The ids of the tracks\<close>









lemma idok_mean: "idok ec (t\<lparr>mean := x\<rparr>) = idok ec t"
  by (simp add: idok_def)




























































subsection \<open>Two runs of the tracker\<close>

text \<open>C1 on a tracker for one class, with the instance of the parameters. A detection
  at \<open>[0, 0, 10, 10]\<close> of score 0.9 starts track 0 with the external id 1. After
  \<open>reset\<close> the per-class list still holds that track although both counters are back
  at their start, so the tracker differs from a fresh one; the same detection in the
  next call is matched with the track of before the reset and reported under its id,
  and no new track or id is made.\<close>

theorem reset_keeps_class_tracks:
  "(let s0 = projr (BYTETrack_init 1 (1/4) 30 (4/5) 30 1);
        s1 = fst (update static_deps s0 [(0, 0, 10, 10)] [9/10] [0]);
        r2 = update static_deps (reset s1) [(0, 0, 10, 10)] [9/10] [0]
    in cls2tracked_tracks s0 = [[]] \<and>
       cls2tracked_tracks (reset s1) = [[0]] \<and>
       reset s1 \<noteq> s0 \<and>
       snd r2 = Inr [1] \<and>
       counter_id (external_id_counter (reset s1)) = 1 \<and>
       counter_id (external_id_counter (fst r2)) = 1 \<and>
       length (heap (fst r2)) = 1)"
  by code_simp

text \<open>C2 on a tracker for two classes, with the instance of the parameters. A
  detection of class 0 starts track 0 (id 1); in the second frame the only detection of
  class 0 is far away, so track 0 becomes Lost and enters \<open>lost_tracks\<close>, the one list of
  lost tracks for all classes. In the third frame a detection of class 1 stands where
  track 0 was: the pool of class 1 holds track 0, the detection re-activates it, its
  id 1 is reported for the detection of class 1, and the track is now in the list of
  class 1.\<close>

theorem lost_track_crosses_classes:
  "(let s0 = projr (BYTETrack_init 2 (1/4) 30 (4/5) 30 1);
        s1 = fst (update static_deps s0 [(0, 0, 10, 10)] [9/10] [0]);
        s2 = fst (update static_deps s1 [(100, 100, 110, 110)] [9/10] [0]);
        r3 = update static_deps s2 [(0, 0, 10, 10)] [9/10] [1]
    in cls2tracked_tracks s1 = [[0], []] \<and>
       lost_tracks s2 = [0] \<and> cls2tracked_tracks s2 = [[1], []] \<and>
       strack_pool (uwt_begin static_deps
          (s2\<lparr>tracked_tracks := cls2tracked_tracks s2 ! 1, frame_id := frame_id s2\<rparr>)
          [((0, 0, 10, 10), 9/10)]) = [0] \<and>
       snd r3 = Inr [1] \<and>
       cls2tracked_tracks (fst r3) = [[1], [0]] \<and>
       map state (heap (fst r3)) = [Tracked, Tracked])"
  by code_simp

end
